theory Spec2Isabelle
  imports Main
begin

section \<open>Errors and process outcomes\<close>

text \<open>
  The join command of \<^verbatim>\<open>iop multi\<close> (package \<^verbatim>\<open>multi\<close>, function
  \<^verbatim>\<open>GetJoinCommand\<close>) talks to Kubernetes API servers and stops the process with
  \<^verbatim>\<open>log.Fatal\<close>. An API error carries the reason that
  \<^verbatim>\<open>errors.IsAlreadyExists\<close> inspects, and its text.
\<close>

datatype reason = AlreadyExists | NotFound | Forbidden | Unknown

datatype error = Error reason string

fun errorText :: "error \<Rightarrow> string" where
  "errorText (Error r m) = m"

fun IsAlreadyExists :: "error option \<Rightarrow> bool" where
  "IsAlreadyExists None = False"
| "IsAlreadyExists (Some (Error r m)) = (r = AlreadyExists)"

text \<open>\<^verbatim>\<open>log.Fatal(err)\<close> prints its argument and calls \<^verbatim>\<open>os.Exit(1)\<close>; a nil error prints as \<^verbatim>\<open><nil>\<close>.\<close>

fun fatalText :: "error option \<Rightarrow> string" where
  "fatalText None = ''<nil>''"
| "fatalText (Some e) = errorText e"

text \<open>
  How a run of the command ends: \<^verbatim>\<open>RunE\<close> returns (nil or an error), \<^verbatim>\<open>log.Fatal\<close>
  (exit status 1 after the message), \<^verbatim>\<open>os.Exit(n)\<close>, or a nil-pointer panic.
\<close>

datatype outcome = Returned "error option" | Fatal string | Exit nat | Panic

section \<open>Objects\<close>

text \<open>The kubeconfig document \<^verbatim>\<open>api.Config\<close> with the fields the command reads or writes.\<close>

record apiCluster =
  CertificateAuthorityData :: string
  Server :: string

record apiContext =
  Cluster :: string
  AuthInfo :: string

record apiAuthInfo =
  Token :: string

record apiConfig =
  Kind :: string
  APIVersion :: string
  Clusters :: "string \<rightharpoonup> apiCluster"
  AuthInfos :: "string \<rightharpoonup> apiAuthInfo"
  Contexts :: "string \<rightharpoonup> apiContext"
  CurrentContext :: string

definition NewConfig :: apiConfig where
  "NewConfig = \<lparr>Kind = [], APIVersion = [], Clusters = Map.empty, AuthInfos = Map.empty,
                 Contexts = Map.empty, CurrentContext = []\<rparr>"

text \<open>\<^verbatim>\<open>v1.ServiceAccount\<close> (the names of the secrets it references) and \<^verbatim>\<open>v1.Secret\<close>.\<close>

record serviceAccount =
  Secrets :: "string list"

record secret =
  Name :: string
  Namespace :: string
  Labels :: "string \<rightharpoonup> string"
  Data :: "string \<rightharpoonup> string"

section \<open>The API servers\<close>

text \<open>
  The calls the command issues through a \<^verbatim>\<open>kubernetes.Clientset\<close>. The patch document is
  \<^verbatim>\<open>json.Marshal(srcSecret)\<close>, the object itself in JSON.
\<close>

datatype apiCall =
    GetNamespace string
  | GetServiceAccount string string
  | GetSecret string string
  | CreateSecret string secret
  | PatchSecret string string secret

text \<open>
  A cluster is a store of objects keyed by namespace and name. Any call can also be refused
  by the server (\<open>fault\<close>: forbidden, unreachable, ...), which gives the command an error
  of any kind.
\<close>

record clusterState =
  namespaces :: "string set"
  serviceAccounts :: "(string \<times> string) \<rightharpoonup> serviceAccount"
  secrets :: "(string \<times> string) \<rightharpoonup> secret"
  fault :: "apiCall \<Rightarrow> error option"

type_synonym world = "nat \<Rightarrow> clusterState"

definition getNamespace :: "clusterState \<Rightarrow> string \<Rightarrow> error option" where
  "getNamespace c n =
     (case fault c (GetNamespace n) of
        Some e \<Rightarrow> Some e
      | None \<Rightarrow> if n \<in> namespaces c then None else Some (Error NotFound (''namespace not found: '' @ n)))"

definition getServiceAccount :: "clusterState \<Rightarrow> string \<Rightarrow> string \<Rightarrow> error + serviceAccount" where
  "getServiceAccount c ns n =
     (case fault c (GetServiceAccount ns n) of
        Some e \<Rightarrow> Inl e
      | None \<Rightarrow>
          (case serviceAccounts c (ns, n) of
             None \<Rightarrow> Inl (Error NotFound (''serviceaccount not found: '' @ n))
           | Some sa \<Rightarrow> Inr sa))"

definition getSecret :: "clusterState \<Rightarrow> string \<Rightarrow> string \<Rightarrow> error + secret" where
  "getSecret c ns n =
     (case fault c (GetSecret ns n) of
        Some e \<Rightarrow> Inl e
      | None \<Rightarrow>
          (case secrets c (ns, n) of
             None \<Rightarrow> Inl (Error NotFound (''secret not found: '' @ n))
           | Some s \<Rightarrow> Inr s))"

text \<open>Create refuses a name that is taken; otherwise it stores the object.\<close>

definition createSecret :: "clusterState \<Rightarrow> string \<Rightarrow> secret \<Rightarrow> (error + secret) \<times> clusterState" where
  "createSecret c ns s =
     (case fault c (CreateSecret ns s) of
        Some e \<Rightarrow> (Inl e, c)
      | None \<Rightarrow>
          (case secrets c (ns, Name s) of
             Some old \<Rightarrow> (Inl (Error AlreadyExists (''secret already exists: '' @ Name s)), c)
           | None \<Rightarrow> (Inr s, c\<lparr>secrets := (secrets c)((ns, Name s) \<mapsto> s)\<rparr>)))"

text \<open>A strategic merge patch of a secret merges the label map and the data map key by key.\<close>

definition patchSecret ::
  "clusterState \<Rightarrow> string \<Rightarrow> string \<Rightarrow> secret \<Rightarrow> (error + secret) \<times> clusterState" where
  "patchSecret c ns n p =
     (case fault c (PatchSecret ns n p) of
        Some e \<Rightarrow> (Inl e, c)
      | None \<Rightarrow>
          (case secrets c (ns, n) of
             None \<Rightarrow> (Inl (Error NotFound (''secret not found: '' @ n)), c)
           | Some old \<Rightarrow>
               (let new = old\<lparr>Labels := Labels old ++ Labels p, Data := Data old ++ Data p\<rparr>
                in (Inr new, c\<lparr>secrets := (secrets c)((ns, n) \<mapsto> new)\<rparr>))))"

text \<open>\<^verbatim>\<open>json.Marshal\<close> of a \<^verbatim>\<open>v1.Secret\<close> has no failing case; the command still checks its error.\<close>

definition jsonMarshal :: "secret \<Rightarrow> error + secret" where
  "jsonMarshal s = Inr s"

section \<open>What a run does\<close>

text \<open>
  The trace of a run: the lines it prints and the API calls it issues, in order. An API call is
  recorded with the context the client was built for, the server it reaches, and its error.
\<close>

datatype event =
    Joining string string
  | SecretExists
  | PatchErr "error option"
  | PatchResult "secret option"
  | Api string nat apiCall "error option"
  | OnlyTwoClusters nat
  | ConfigNotFound string
  | CouldNotBuildClient string error
  | CouldNotCreateClientset string error
  | NoIstioSystem string error
  | FoundIstioSystem string

text \<open>
  What the command takes from its surroundings: the loaded kubeconfig
  (\<^verbatim>\<open>args.config.ConfigAccess().GetStartingConfig()\<close>), the client configuration of a
  context (\<^verbatim>\<open>BuildClientConfig(args.kubeconfig, ctx).ClientConfig()\<close>, here the server it
  points at), \<^verbatim>\<open>kubernetes.NewForConfig\<close>, and the external \<^verbatim>\<open>kubectl\<close> tool that the
  disabled block shells out to.
\<close>

record env =
  startingConfig :: "error + apiConfig"
  clientConfig :: "string \<Rightarrow> error + nat"
  newForConfig :: "nat \<Rightarrow> error option"
  kubectl :: "string list \<Rightarrow> world \<Rightarrow> outcome option \<times> event list \<times> world"

definition errOf :: "error + 'a \<Rightarrow> error option" where
  "errOf r = (case r of Inl e \<Rightarrow> Some e | Inr v \<Rightarrow> None)"

definition resOf :: "error + 'a \<Rightarrow> 'a option" where
  "resOf r = (case r of Inl e \<Rightarrow> None | Inr v \<Rightarrow> Some v)"

text \<open>Lines 352-360 and 381-389: the client of a context; either failure is fatal at the caller.\<close>

definition newClient :: "env \<Rightarrow> string \<Rightarrow> error + nat" where
  "newClient env ctx =
     (case clientConfig env ctx of
        Inl err \<Rightarrow> Inl err
      | Inr rest \<Rightarrow>
          (case newForConfig env rest of
             Some err \<Rightarrow> Inl err
           | None \<Rightarrow> Inr rest))"

text \<open>
  Lines 392-415: the service account of the source, its one secret, and the two fields.
  The result is the message of the fatal stop, or the secret's name, CA data and token.
\<close>

definition readCredentials ::
  "world \<Rightarrow> string \<Rightarrow> nat \<Rightarrow> string \<Rightarrow> string \<Rightarrow> (string + string \<times> string \<times> string) \<times> event list" where
  "readCredentials w src srcKube namespace serviceAccountName =
     (case getServiceAccount (w srcKube) namespace serviceAccountName of
        Inl err \<Rightarrow>
          (Inl (fatalText (Some err)),
           [Api src srcKube (GetServiceAccount namespace serviceAccountName) (Some err)])
      | Inr sa \<Rightarrow>
          if length (Secrets sa) \<noteq> 1
          then (Inl (fatalText None),
                [Api src srcKube (GetServiceAccount namespace serviceAccountName) None])
          else
            (let secretName = hd (Secrets sa) in
             case getSecret (w srcKube) namespace secretName of
               Inl err \<Rightarrow>
                 (Inl (fatalText (Some err)),
                  [Api src srcKube (GetServiceAccount namespace serviceAccountName) None,
                   Api src srcKube (GetSecret namespace secretName) (Some err)])
             | Inr pilotSecret \<Rightarrow>
                 (let tr = [Api src srcKube (GetServiceAccount namespace serviceAccountName) None,
                            Api src srcKube (GetSecret namespace secretName) None] in
                  case Data pilotSecret ''ca.crt'' of
                    None \<Rightarrow> (Inl (secretName @ '' is missing ca.crt''), tr)
                  | Some caData \<Rightarrow>
                      (case Data pilotSecret ''token'' of
                         None \<Rightarrow> (Inl (secretName @ '' is missing token''), tr)
                       | Some token \<Rightarrow> (Inr (secretName, caData, token), tr)))))"

text \<open>Lines 417-431: the kubeconfig document for the remote cluster.\<close>

definition newRemoteConfig :: "string \<Rightarrow> string \<Rightarrow> string \<Rightarrow> string \<Rightarrow> apiConfig" where
  "newRemoteConfig clusterName server caData token =
     NewConfig
       \<lparr>Kind := ''Config'',
        APIVersion := ''v1'',
        Clusters := (Clusters NewConfig)
          (clusterName \<mapsto> \<lparr>CertificateAuthorityData = caData, Server = server\<rparr>),
        Contexts := (Contexts NewConfig)
          (clusterName \<mapsto> \<lparr>Cluster = clusterName, AuthInfo = clusterName\<rparr>),
        CurrentContext := clusterName,
        AuthInfos := (AuthInfos NewConfig) (clusterName \<mapsto> \<lparr>Token = token\<rparr>)\<rparr>"

text \<open>Lines 433-441: the secret that is sent to the destination.\<close>

definition newSrcSecret :: "string \<Rightarrow> string \<Rightarrow> secret" where
  "newSrcSecret src namespace =
     \<lparr>Name = ''istio-mc-'' @ src,
      Namespace = namespace,
      Labels = [''istio/multiCluster'' \<mapsto> ''true''],
      Data = Map.empty\<rparr>"

text \<open>
  Lines 443-454: create, and patch when the name is taken. The error of the create is looked
  at by \<^verbatim>\<open>errors.IsAlreadyExists\<close> only; the error of the patch is printed.
\<close>

definition createOrPatch ::
  "world \<Rightarrow> string \<Rightarrow> nat \<Rightarrow> string \<Rightarrow> secret \<Rightarrow> outcome option \<times> event list \<times> world" where
  "createOrPatch w dst dstKube namespace srcSecret =
     (case createSecret (w dstKube) namespace srcSecret of
        (result, c1) \<Rightarrow>
          (let w1 = w(dstKube := c1);
               err = errOf result;
               ev = Api dst dstKube (CreateSecret namespace srcSecret) err
           in if IsAlreadyExists err
              then
                (case jsonMarshal srcSecret of
                   Inl merr \<Rightarrow> (Some (Fatal (fatalText (Some merr))), [ev, SecretExists], w1)
                 | Inr patch \<Rightarrow>
                     (case patchSecret (w1 dstKube) namespace (Name srcSecret) patch of
                        (res, c2) \<Rightarrow>
                          (None,
                           [ev, SecretExists,
                            Api dst dstKube (PatchSecret namespace (Name srcSecret) patch) (errOf res),
                            PatchErr (errOf res), PatchResult (resOf res)],
                           w1(dstKube := c2))))
              else (None, [ev], w1)))"

text \<open>
  Lines 367-454, the body of the inner loop for one pair. \<^verbatim>\<open>config.Contexts[dst]\<close> and
  \<^verbatim>\<open>config.Clusters[clusterName]\<close> are pointers, nil for a missing key, so reading a field
  of a missing entry panics.
\<close>

definition joinPair ::
  "env \<Rightarrow> apiConfig \<Rightarrow> string \<Rightarrow> nat \<Rightarrow> string \<Rightarrow> world \<Rightarrow> outcome option \<times> event list \<times> world" where
  "joinPair env config dst dstKube src w =
     (case Contexts config dst of
        None \<Rightarrow> (Some Panic, [Joining src dst], w)
      | Some dctx \<Rightarrow>
          (let clusterName = Cluster dctx in
           case Clusters config clusterName of
             None \<Rightarrow> (Some Panic, [Joining src dst], w)
           | Some cl \<Rightarrow>
               (let server = Server cl;
                    namespace = ''istio-system'';
                    serviceAccountName = ''istio-pilot-service-account''
                in case newClient env src of
                     Inl err \<Rightarrow> (Some (Fatal (fatalText (Some err))), [Joining src dst], w)
                   | Inr srcKube \<Rightarrow>
                       (case readCredentials w src srcKube namespace serviceAccountName of
                          (Inl msg, tr) \<Rightarrow> (Some (Fatal msg), Joining src dst # tr, w)
                        | (Inr (secretName, caData, token), tr) \<Rightarrow>
                            (let sc = newRemoteConfig clusterName server caData token;
                                 srcSecret = newSrcSecret src namespace
                             in case createOrPatch w dst dstKube namespace srcSecret of
                                  (out, tr2, w') \<Rightarrow> (out, Joining src dst # tr @ tr2, w'))))))"

text \<open>Lines 362-455: the inner loop over the sources, skipping the destination itself.\<close>

fun srcLoop ::
  "env \<Rightarrow> apiConfig \<Rightarrow> string \<Rightarrow> nat \<Rightarrow> string list \<Rightarrow> world \<Rightarrow> outcome option \<times> event list \<times> world" where
  "srcLoop env config dst dstKube [] w = (None, [], w)"
| "srcLoop env config dst dstKube (src # rest) w =
     (if src = dst then srcLoop env config dst dstKube rest w
      else
        (case joinPair env config dst dstKube src w of
           (Some out, tr, w1) \<Rightarrow> (Some out, tr, w1)
         | (None, tr, w1) \<Rightarrow>
             (case srcLoop env config dst dstKube rest w1 of
                (out, tr2, w2) \<Rightarrow> (out, tr @ tr2, w2))))"

text \<open>Lines 351-456: the outer loop over the destinations; the second argument is the whole list.\<close>

fun dstLoop ::
  "env \<Rightarrow> apiConfig \<Rightarrow> string list \<Rightarrow> string list \<Rightarrow> world \<Rightarrow> outcome option \<times> event list \<times> world" where
  "dstLoop env config clusters [] w = (None, [], w)"
| "dstLoop env config clusters (dst # rest) w =
     (case newClient env dst of
        Inl err \<Rightarrow> (Some (Fatal (fatalText (Some err))), [], w)
      | Inr dstKube \<Rightarrow>
          (case srcLoop env config dst dstKube clusters w of
             (Some out, tr, w1) \<Rightarrow> (Some out, tr, w1)
           | (None, tr, w1) \<Rightarrow>
               (case dstLoop env config clusters rest w1 of
                  (out, tr2, w2) \<Rightarrow> (out, tr @ tr2, w2))))"

section \<open>The disabled block\<close>

text \<open>
  Lines 137-346 stand under \<^verbatim>\<open>if false\<close>. Lines 141-183 check the number of clusters and
  look every cluster up; the rest shells out to \<^verbatim>\<open>kubectl\<close>.
\<close>

definition legacyCheckCluster :: "env \<Rightarrow> apiConfig \<Rightarrow> world \<Rightarrow> string \<Rightarrow> bool \<times> event list" where
  "legacyCheckCluster env config w cluster =
     (case Contexts config cluster of
        None \<Rightarrow> (True, [ConfigNotFound cluster])
      | Some ctx \<Rightarrow>
          (case clientConfig env cluster of
             Inl err \<Rightarrow> (True, [CouldNotBuildClient cluster err])
           | Inr rest \<Rightarrow>
               (case newForConfig env rest of
                  Some err \<Rightarrow> (True, [CouldNotCreateClientset cluster err])
                | None \<Rightarrow>
                    (case getNamespace (w rest) ''istio-system'' of
                       Some err \<Rightarrow>
                         (True, [Api cluster rest (GetNamespace ''istio-system'') (Some err),
                                 NoIstioSystem cluster err])
                     | None \<Rightarrow>
                         (False, [Api cluster rest (GetNamespace ''istio-system'') None,
                                  FoundIstioSystem cluster])))))"

fun legacyCheckLoop :: "env \<Rightarrow> apiConfig \<Rightarrow> world \<Rightarrow> string list \<Rightarrow> bool \<times> event list" where
  "legacyCheckLoop env config w [] = (False, [])"
| "legacyCheckLoop env config w (cluster # rest) =
     (case legacyCheckCluster env config w cluster of
        (nf, tr) \<Rightarrow>
          (case legacyCheckLoop env config w rest of
             (nf2, tr2) \<Rightarrow> (nf \<or> nf2, tr @ tr2)))"

definition legacyBlock ::
  "env \<Rightarrow> apiConfig \<Rightarrow> string list \<Rightarrow> world \<Rightarrow> outcome option \<times> event list \<times> world" where
  "legacyBlock env config clusters w =
     (if length clusters \<noteq> 2
      then (Some (Exit 1), [OnlyTwoClusters (length clusters)], w)
      else
        (case legacyCheckLoop env config w clusters of
           (notFound, tr) \<Rightarrow>
             if notFound then (Some (Exit 1), tr, w)
             else
               (case kubectl env clusters w of
                  (out, tr2, w') \<Rightarrow> (out, tr @ tr2, w'))))"

section \<open>The join command\<close>

text \<open>Lines 131-459, the \<^verbatim>\<open>RunE\<close> of the join command.\<close>

definition join :: "env \<Rightarrow> string list \<Rightarrow> world \<Rightarrow> outcome \<times> event list \<times> world" where
  "join env clusters w =
     (case startingConfig env of
        Inl err \<Rightarrow> (Returned (Some err), [], w)
      | Inr config \<Rightarrow>
          (case (if False then legacyBlock env config clusters w else (None, [], w)) of
             (Some out, tr, w1) \<Rightarrow> (out, tr, w1)
           | (None, tr, w1) \<Rightarrow>
               (case dstLoop env config clusters clusters w1 of
                  (Some out, tr2, w2) \<Rightarrow> (out, tr @ tr2, w2)
                | (None, tr2, w2) \<Rightarrow> (Returned None, tr @ tr2, w2))))"

section \<open>Observing a run\<close>

text \<open>Predicates on the events of a trace, and the components of a result.\<close>

fun payloadOf :: "event \<Rightarrow> secret option" where
  "payloadOf (Api ctx addr (CreateSecret ns s) err) = Some s"
| "payloadOf (Api ctx addr (PatchSecret ns n p) err) = Some p"
| "payloadOf e = None"

fun isSourceRead :: "string \<Rightarrow> event \<Rightarrow> bool" where
  "isSourceRead src (Api ctx addr (GetServiceAccount ns n) err) = (ctx = src)"
| "isSourceRead src (Api ctx addr (GetSecret ns n) err) = (ctx = src)"
| "isSourceRead src e = False"

fun isDestinationWrite :: "string \<Rightarrow> nat \<Rightarrow> string \<Rightarrow> event \<Rightarrow> bool" where
  "isDestinationWrite dst dstKube namespace (Api ctx addr (CreateSecret ns s) err) =
     (ctx = dst \<and> addr = dstKube \<and> ns = namespace)"
| "isDestinationWrite dst dstKube namespace (Api ctx addr (PatchSecret ns n p) err) =
     (ctx = dst \<and> addr = dstKube \<and> ns = namespace)"
| "isDestinationWrite dst dstKube namespace e = False"

fun isApi :: "event \<Rightarrow> bool" where
  "isApi (Api ctx addr call err) = True"
| "isApi e = False"

definition traceOf :: "'a \<times> event list \<times> world \<Rightarrow> event list" where
  "traceOf r = fst (snd r)"

definition worldOf :: "'a \<times> event list \<times> world \<Rightarrow> world" where
  "worldOf r = snd (snd r)"

section \<open>A mesh of three clusters\<close>

text \<open>
  Concrete surroundings on which the command is run below: contexts \<open>a\<close>, \<open>b\<close> and \<open>c\<close>
  reach the servers 0, 1 and 2; every cluster holds the pilot service account with its one
  token secret. The current context is \<open>a\<close>, and the empty identifier stands for it:
  \<^verbatim>\<open>BuildClientConfig\<close> sets it as an override that is empty (lines 58-61), so the client
  of the current context is built. Any other identifier is refused by the client library.
\<close>

definition pilotAccount :: serviceAccount where
  "pilotAccount = \<lparr>Secrets = [''pilot-token'']\<rparr>"

definition pilotToken :: secret where
  "pilotToken = \<lparr>Name = ''pilot-token'', Namespace = ''istio-system'', Labels = Map.empty,
                  Data = [''ca.crt'' \<mapsto> ''CA'', ''token'' \<mapsto> ''TOKEN'']\<rparr>"

definition meshCluster :: clusterState where
  "meshCluster =
     \<lparr>namespaces = {''istio-system''},
      serviceAccounts = [(''istio-system'', ''istio-pilot-service-account'') \<mapsto> pilotAccount],
      secrets = [(''istio-system'', ''pilot-token'') \<mapsto> pilotToken],
      fault = (\<lambda>call. None)\<rparr>"

definition meshWorld :: world where
  "meshWorld = (\<lambda>addr. meshCluster)"

definition meshConfig :: apiConfig where
  "meshConfig =
     NewConfig
       \<lparr>Clusters := [''ca'' \<mapsto> \<lparr>CertificateAuthorityData = [], Server = ''https://a''\<rparr>,
                     ''cb'' \<mapsto> \<lparr>CertificateAuthorityData = [], Server = ''https://b''\<rparr>,
                     ''cc'' \<mapsto> \<lparr>CertificateAuthorityData = [], Server = ''https://c''\<rparr>],
        Contexts := [''a'' \<mapsto> \<lparr>Cluster = ''ca'', AuthInfo = ''ua''\<rparr>,
                     ''b'' \<mapsto> \<lparr>Cluster = ''cb'', AuthInfo = ''ub''\<rparr>,
                     ''c'' \<mapsto> \<lparr>Cluster = ''cc'', AuthInfo = ''uc''\<rparr>],
        CurrentContext := ''a''\<rparr>"

definition meshEnv :: env where
  "meshEnv =
     \<lparr>startingConfig = Inr meshConfig,
      clientConfig = (\<lambda>ctx. if ctx = [] \<or> ctx = ''a'' then Inr 0 else if ctx = ''b'' then Inr 1
                            else if ctx = ''c'' then Inr 2
                            else Inl (Error Unknown (''context not found: '' @ ctx))),
      newForConfig = (\<lambda>rest. None),
      kubectl = (\<lambda>args w. (None, [], w))\<rparr>"


definition noSecretCluster :: clusterState where
  "noSecretCluster =
     meshCluster\<lparr>serviceAccounts :=
       [(''istio-system'', ''istio-pilot-service-account'') \<mapsto> \<lparr>Secrets = []\<rparr>]\<rparr>"

definition noTokenCluster :: clusterState where
  "noTokenCluster =
     meshCluster\<lparr>secrets :=
       [(''istio-system'', ''pilot-token'') \<mapsto> pilotToken\<lparr>Data := [''ca.crt'' \<mapsto> ''CA'']\<rparr>]\<rparr>"

text \<open>
  The exchanges a run attempts, read off the line \<^verbatim>\<open>joining src to dst\<close> that opens each
  (line 367), and the events that the exchange loop can produce at all.
\<close>

fun attempts :: "event list \<Rightarrow> (string \<times> string) list" where
  "attempts [] = []"
| "attempts (Joining src dst # tr) = (src, dst) # attempts tr"
| "attempts (e # tr) = attempts tr"

fun exchangeEvent :: "event \<Rightarrow> bool" where
  "exchangeEvent (Joining src dst) = True"
| "exchangeEvent SecretExists = True"
| "exchangeEvent (PatchErr err) = True"
| "exchangeEvent (PatchResult res) = True"
| "exchangeEvent (Api ctx addr (GetNamespace n) err) = False"
| "exchangeEvent (Api ctx addr call err) = True"
| "exchangeEvent e = False"

text \<open>Clusters whose API server refuses the writes.\<close>

fun refuseCreate :: "apiCall \<Rightarrow> error option" where
  "refuseCreate (CreateSecret ns s) = Some (Error Forbidden ''secrets is forbidden'')"
| "refuseCreate call = None"

fun refusePatch :: "apiCall \<Rightarrow> error option" where
  "refusePatch (PatchSecret ns n p) = Some (Error Forbidden ''secrets is forbidden'')"
| "refusePatch call = None"

definition createRefusedCluster :: clusterState where
  "createRefusedCluster = meshCluster\<lparr>fault := refuseCreate\<rparr>"

definition patchRefusedCluster :: clusterState where
  "patchRefusedCluster =
     meshCluster
       \<lparr>secrets := (secrets meshCluster)
          ((''istio-system'', ''istio-mc-a'') \<mapsto>
             \<lparr>Name = ''istio-mc-a'', Namespace = ''istio-system'', Labels = Map.empty,
              Data = Map.empty\<rparr>),
        fault := refusePatch\<rparr>"

text \<open>The two ways the exchange loop stops the process.\<close>

fun fatalOrPanic :: "outcome \<Rightarrow> bool" where
  "fatalOrPanic (Fatal m) = True"
| "fatalOrPanic Panic = True"
| "fatalOrPanic out = False"

text \<open>
  The ordered pairs (source, destination) of different identifiers of a cluster list, in the
  order of the two loops: destinations outside, sources inside.
\<close>

definition pairsOf :: "string list \<Rightarrow> (string \<times> string) list" where
  "pairsOf clusters =
     concat (map (\<lambda>dst. map (\<lambda>src. (src, dst)) (filter (\<lambda>src. src \<noteq> dst) clusters)) clusters)"

text \<open>
  A call has succeeded for the command when it returned no error, or, for the create, the
  conflict that the command answers with a patch. A run in which every call has succeeded is
  the successful run of the scenarios.
\<close>

fun apiOk :: "event \<Rightarrow> bool" where
  "apiOk (Api ctx addr (CreateSecret ns s) err) = (err = None \<or> IsAlreadyExists err)"
| "apiOk (Api ctx addr call err) = (err = None)"
| "apiOk e = True"

fun isConflict :: "event \<Rightarrow> bool" where
  "isConflict (Api ctx addr (CreateSecret ns s) err) = IsAlreadyExists err"
| "isConflict e = False"

fun isPatch :: "event \<Rightarrow> bool" where
  "isPatch (Api ctx addr (PatchSecret ns n p) err) = True"
| "isPatch e = False"

text \<open>
  An identifier is usable when the configuration has its context and the cluster entry of
  that context, and a client can be built for it.
\<close>

definition usable :: "env \<Rightarrow> apiConfig \<Rightarrow> string \<Rightarrow> bool" where
  "usable env config x =
     (case Contexts config x of
        None \<Rightarrow> False
      | Some dctx \<Rightarrow>
          (case Clusters config (Cluster dctx) of
             None \<Rightarrow> False
           | Some cl \<Rightarrow> \<not> isl (newClient env x)))"

section \<open>Properties\<close>

lemmas mesh_defs = pilotAccount_def pilotToken_def meshCluster_def meshWorld_def meshConfig_def
  meshEnv_def NewConfig_def

lemma readCredentials_reads:
  "e \<in> set (snd (readCredentials w src srcKube ns san)) \<Longrightarrow> isSourceRead src e"
  by (auto simp: readCredentials_def Let_def split: sum.splits if_splits option.splits)

lemma createOrPatch_writes:
  "e \<in> set (traceOf (createOrPatch w dst dstKube ns s)) \<Longrightarrow>
     isDestinationWrite dst dstKube ns e \<and> payloadOf e = Some s \<or> \<not> isApi e"
  by (auto simp: createOrPatch_def traceOf_def jsonMarshal_def Let_def split: prod.splits if_splits)

subsection \<open>Fatal stops while reading the source\<close>

text \<open>
  Claim C7. For a pair (source, destination), when the service account
  \<^verbatim>\<open>istio-pilot-service-account\<close> fetched from the source's namespace \<^verbatim>\<open>istio-system\<close>
  references zero secrets or more than one, the process stops with \<^verbatim>\<open>log.Fatal\<close>; the only
  call of the pair is the fetch of the service account, so no write reaches the destination,
  and the clusters are as they were.
\<close>

theorem C7_secret_count_fatal:
  assumes "Contexts config dst = Some dctx"
    and "Clusters config (Cluster dctx) = Some cl"
    and "newClient env src = Inr srcKube"
    and "getServiceAccount (w srcKube) ''istio-system'' ''istio-pilot-service-account'' = Inr sa"
    and "length (Secrets sa) \<noteq> 1"
  shows "joinPair env config dst dstKube src w =
           (Some (Fatal ''<nil>''),
            [Joining src dst,
             Api src srcKube (GetServiceAccount ''istio-system'' ''istio-pilot-service-account'') None],
            w)"
  using assms by (simp add: joinPair_def readCredentials_def)


theorem C7_secret_count_fatal_witness:
  "Contexts meshConfig ''a'' = Some \<lparr>Cluster = ''ca'', AuthInfo = ''ua''\<rparr>
   \<and> Clusters meshConfig ''ca'' = Some \<lparr>CertificateAuthorityData = [], Server = ''https://a''\<rparr>
   \<and> newClient meshEnv ''b'' = Inr 1
   \<and> getServiceAccount ((meshWorld(1 := noSecretCluster)) 1) ''istio-system''
         ''istio-pilot-service-account'' = Inr \<lparr>Secrets = []\<rparr>
   \<and> length (Secrets \<lparr>Secrets = []\<rparr>) \<noteq> 1
   \<and> joinPair meshEnv meshConfig ''a'' 0 ''b'' (meshWorld(1 := noSecretCluster)) =
         (Some (Fatal ''<nil>''),
          [Joining ''b'' ''a'',
           Api ''b'' 1 (GetServiceAccount ''istio-system'' ''istio-pilot-service-account'') None],
          meshWorld(1 := noSecretCluster))"
proof -
  have h1: "Contexts meshConfig ''a'' = Some \<lparr>Cluster = ''ca'', AuthInfo = ''ua''\<rparr>"
    by (simp add: meshConfig_def)
  have h2: "Clusters meshConfig (Cluster \<lparr>Cluster = ''ca'', AuthInfo = ''ua''\<rparr>) =
              Some \<lparr>CertificateAuthorityData = [], Server = ''https://a''\<rparr>"
    by (simp add: meshConfig_def)
  have h3: "newClient meshEnv ''b'' = Inr 1"
    by (simp add: newClient_def meshEnv_def)
  have h4: "getServiceAccount ((meshWorld(1 := noSecretCluster)) 1) ''istio-system''
              ''istio-pilot-service-account'' = Inr \<lparr>Secrets = []\<rparr>"
    by (simp add: getServiceAccount_def noSecretCluster_def meshCluster_def)
  have h5: "length (Secrets \<lparr>Secrets = []\<rparr>) \<noteq> 1"
    by simp
  show ?thesis
    using h1 h2 h3 h4 h5
      C7_secret_count_fatal [where w = "meshWorld(1 := noSecretCluster)" and srcKube = 1 and dstKube = 0,
          OF h1 h2 h3 h4 h5]
    by simp
qed

text \<open>
  Claim C8. For a pair (source, destination), when the secret fetched from the source lacks
  the field \<^verbatim>\<open>ca.crt\<close> or the field \<^verbatim>\<open>token\<close>, the process stops with \<^verbatim>\<open>log.Fatalf\<close>,
  the message names the secret and the missing field (\<^verbatim>\<open>ca.crt\<close> first when both are
  missing), and the pair has issued its two reads only: the destination secret is not built
  and nothing is written.
\<close>

theorem C8_missing_field_fatal:
  assumes "Contexts config dst = Some dctx"
    and "Clusters config (Cluster dctx) = Some cl"
    and "newClient env src = Inr srcKube"
    and "getServiceAccount (w srcKube) ''istio-system'' ''istio-pilot-service-account'' = Inr sa"
    and "length (Secrets sa) = 1"
    and "getSecret (w srcKube) ''istio-system'' (hd (Secrets sa)) = Inr pilotSecret"
    and "Data pilotSecret ''ca.crt'' = None \<or> Data pilotSecret ''token'' = None"
  shows "joinPair env config dst dstKube src w =
           (Some (Fatal (hd (Secrets sa) @
                    (if Data pilotSecret ''ca.crt'' = None then '' is missing ca.crt''
                     else '' is missing token''))),
            [Joining src dst,
             Api src srcKube (GetServiceAccount ''istio-system'' ''istio-pilot-service-account'') None,
             Api src srcKube (GetSecret ''istio-system'' (hd (Secrets sa))) None],
            w)"
  using assms by (auto simp: joinPair_def readCredentials_def Let_def split: option.splits)

theorem C8_missing_field_fatal_witness:
  "Contexts meshConfig ''a'' = Some \<lparr>Cluster = ''ca'', AuthInfo = ''ua''\<rparr>
   \<and> newClient meshEnv ''b'' = Inr 1
   \<and> getSecret ((meshWorld(1 := noTokenCluster)) 1) ''istio-system'' ''pilot-token'' =
         Inr (pilotToken\<lparr>Data := [''ca.crt'' \<mapsto> ''CA'']\<rparr>)
   \<and> joinPair meshEnv meshConfig ''a'' 0 ''b'' (meshWorld(1 := noTokenCluster)) =
         (Some (Fatal ''pilot-token is missing token''),
          [Joining ''b'' ''a'',
           Api ''b'' 1 (GetServiceAccount ''istio-system'' ''istio-pilot-service-account'') None,
           Api ''b'' 1 (GetSecret ''istio-system'' ''pilot-token'') None],
          meshWorld(1 := noTokenCluster))"
proof -
  have h1: "Contexts meshConfig ''a'' = Some \<lparr>Cluster = ''ca'', AuthInfo = ''ua''\<rparr>"
    by (simp add: meshConfig_def)
  have h2: "Clusters meshConfig (Cluster \<lparr>Cluster = ''ca'', AuthInfo = ''ua''\<rparr>) =
              Some \<lparr>CertificateAuthorityData = [], Server = ''https://a''\<rparr>"
    by (simp add: meshConfig_def)
  have h3: "newClient meshEnv ''b'' = Inr 1"
    by (simp add: newClient_def meshEnv_def)
  have h4: "getServiceAccount ((meshWorld(1 := noTokenCluster)) 1) ''istio-system''
              ''istio-pilot-service-account'' = Inr pilotAccount"
    by (simp add: getServiceAccount_def noTokenCluster_def meshCluster_def)
  have h5: "length (Secrets pilotAccount) = 1"
    by (simp add: pilotAccount_def)
  have h6: "getSecret ((meshWorld(1 := noTokenCluster)) 1) ''istio-system''
              (hd (Secrets pilotAccount)) = Inr (pilotToken\<lparr>Data := [''ca.crt'' \<mapsto> ''CA'']\<rparr>)"
    by (simp add: getSecret_def noTokenCluster_def meshCluster_def pilotAccount_def)
  have h7: "Data (pilotToken\<lparr>Data := [''ca.crt'' \<mapsto> ''CA'']\<rparr>) ''ca.crt'' = None
            \<or> Data (pilotToken\<lparr>Data := [''ca.crt'' \<mapsto> ''CA'']\<rparr>) ''token'' = None"
    by simp
  show ?thesis
    using h1 h3 h6
      C8_missing_field_fatal [where w = "meshWorld(1 := noTokenCluster)" and srcKube = 1 and dstKube = 0,
          OF h1 h2 h3 h4 h5 h6 h7]
    by (simp add: pilotAccount_def)
qed

lemma joinPair_events:
  assumes "e \<in> set (traceOf (joinPair env config dst dstKube src w))" and "isApi e"
  shows "isSourceRead src e
         \<or> isDestinationWrite dst dstKube ''istio-system'' e
            \<and> payloadOf e = Some (newSrcSecret src ''istio-system'')"
proof (cases "Contexts config dst")
  case None
  with assms show ?thesis by (auto simp: joinPair_def traceOf_def)
next
  case (Some dctx)
  show ?thesis
  proof (cases "Clusters config (Cluster dctx)")
    case None
    with Some assms show ?thesis by (auto simp: joinPair_def traceOf_def)
  next
    case cl: (Some cl)
    show ?thesis
    proof (cases "newClient env src")
      case (Inl err)
      with Some cl assms show ?thesis by (auto simp: joinPair_def traceOf_def)
    next
      case (Inr srcKube)
      obtain r tr where rc:
        "readCredentials w src srcKube ''istio-system'' ''istio-pilot-service-account'' = (r, tr)"
        by (cases "readCredentials w src srcKube ''istio-system'' ''istio-pilot-service-account''")
      have reads: "\<And>x. x \<in> set tr \<Longrightarrow> isSourceRead src x"
        using readCredentials_reads
          [of _ w src srcKube "''istio-system''" "''istio-pilot-service-account''"] rc
        by simp
      show ?thesis
      proof (cases r)
        case (Inl msg)
        with Some cl Inr rc assms reads show ?thesis
          by (auto simp: joinPair_def traceOf_def)
      next
        case cred: (Inr cred)
        obtain out tr2 w' where cp:
          "createOrPatch w dst dstKube ''istio-system'' (newSrcSecret src ''istio-system'') =
             (out, tr2, w')"
          by (cases "createOrPatch w dst dstKube ''istio-system'' (newSrcSecret src ''istio-system'')")
        have writes: "\<And>x. x \<in> set tr2 \<Longrightarrow>
            isDestinationWrite dst dstKube ''istio-system'' x
              \<and> payloadOf x = Some (newSrcSecret src ''istio-system'') \<or> \<not> isApi x"
          using createOrPatch_writes
            [of _ w dst dstKube "''istio-system''" "newSrcSecret src ''istio-system''"] cp
          by (simp add: traceOf_def)
        from Some cl Inr rc cred cp assms
        have "e = Joining src dst \<or> e \<in> set tr \<or> e \<in> set tr2"
          by (auto simp: joinPair_def traceOf_def Let_def split: prod.splits)
        with reads writes assms(2) show ?thesis by auto
      qed
    qed
  qed
qed

lemma payload_isApi: "payloadOf e = Some p \<Longrightarrow> isApi e"
  by (cases e rule: payloadOf.cases) simp_all

lemma sourceRead_no_payload: "isSourceRead src e \<Longrightarrow> payloadOf e = None"
  by (cases e rule: payloadOf.cases) simp_all

lemma joinPair_payload:
  assumes "e \<in> set (traceOf (joinPair env config dst dstKube src w))" and "payloadOf e = Some p"
  shows "p = newSrcSecret src ''istio-system''"
  using joinPair_events [OF assms(1) payload_isApi [OF assms(2)]] assms(2)
  by (auto dest: sourceRead_no_payload)

lemma srcLoop_payload:
  "e \<in> set (traceOf (srcLoop env config dst dstKube srcs w)) \<Longrightarrow> payloadOf e = Some p \<Longrightarrow>
     \<exists>src\<in>set srcs. p = newSrcSecret src ''istio-system''"
proof (induction srcs arbitrary: w)
  case Nil
  then show ?case by (simp add: traceOf_def)
next
  case (Cons src rest)
  show ?case
  proof (cases "src = dst")
    case True
    with Cons show ?thesis by auto
  next
    case False
    obtain out tr w1 where jp: "joinPair env config dst dstKube src w = (out, tr, w1)"
      by (cases "joinPair env config dst dstKube src w")
    have here: "e \<in> set tr \<Longrightarrow> p = newSrcSecret src ''istio-system''"
      using joinPair_payload [of e env config dst dstKube src w p] jp Cons.prems(2)
      by (simp add: traceOf_def)
    show ?thesis
    proof (cases out)
      case (Some stop)
      with False jp Cons.prems here show ?thesis by (auto simp: traceOf_def)
    next
      case None
      with False jp Cons.prems
      have "e \<in> set tr \<or> e \<in> set (traceOf (srcLoop env config dst dstKube rest w1))"
        by (auto simp: traceOf_def split: prod.splits)
      with here Cons.IH [of w1] Cons.prems(2) show ?thesis by auto
    qed
  qed
qed

lemma dstLoop_payload:
  "e \<in> set (traceOf (dstLoop env config clusters dsts w)) \<Longrightarrow> payloadOf e = Some p \<Longrightarrow>
     \<exists>src\<in>set clusters. p = newSrcSecret src ''istio-system''"
proof (induction dsts arbitrary: w)
  case Nil
  then show ?case by (simp add: traceOf_def)
next
  case (Cons dst rest)
  show ?case
  proof (cases "newClient env dst")
    case (Inl err)
    with Cons.prems show ?thesis by (simp add: traceOf_def)
  next
    case (Inr dstKube)
    obtain out tr w1 where sl: "srcLoop env config dst dstKube clusters w = (out, tr, w1)"
      by (cases "srcLoop env config dst dstKube clusters w")
    have here: "e \<in> set tr \<Longrightarrow> \<exists>src\<in>set clusters. p = newSrcSecret src ''istio-system''"
      using srcLoop_payload [of e env config dst dstKube clusters w p] sl Cons.prems(2)
      by (simp add: traceOf_def)
    show ?thesis
    proof (cases out)
      case (Some stop)
      with Inr sl Cons.prems here show ?thesis by (auto simp: traceOf_def)
    next
      case None
      with Inr sl Cons.prems
      have "e \<in> set tr \<or> e \<in> set (traceOf (dstLoop env config clusters rest w1))"
        by (auto simp: traceOf_def split: prod.splits)
      with here Cons.IH [of w1] Cons.prems(2) show ?thesis by auto
    qed
  qed
qed

lemma join_trace:
  "traceOf (join env clusters w) =
     (case startingConfig env of
        Inl err \<Rightarrow> []
      | Inr config \<Rightarrow> traceOf (dstLoop env config clusters clusters w))"
  by (auto simp: join_def traceOf_def split: sum.splits prod.splits option.splits)

subsection \<open>What is written, and where\<close>

text \<open>
  Claim C2. Every secret that a run submits, in a create call or in the patch that follows a
  conflict, is the object of lines 433-441 for some source of the cluster list: the name
  \<^verbatim>\<open>istio-mc-\<close> followed by the source, the namespace \<^verbatim>\<open>istio-system\<close>, the one label
  \<^verbatim>\<open>istio/multiCluster=true\<close>, and no data. The kubeconfig document of lines 417-431 does
  hold the server, the CA data and the token, and it is not part of what is sent.
\<close>

theorem C2_payload:
  assumes "e \<in> set (traceOf (join env clusters w))" and "payloadOf e = Some p"
  shows "(\<exists>src\<in>set clusters.
            p = \<lparr>Name = ''istio-mc-'' @ src, Namespace = ''istio-system'',
                 Labels = [''istio/multiCluster'' \<mapsto> ''true''], Data = Map.empty\<rparr>)
         \<and> Clusters (newRemoteConfig clusterName server caData token) clusterName =
             Some \<lparr>CertificateAuthorityData = caData, Server = server\<rparr>
         \<and> AuthInfos (newRemoteConfig clusterName server caData token) clusterName =
             Some \<lparr>Token = token\<rparr>"
proof -
  from assms(1) obtain config where
    "e \<in> set (traceOf (dstLoop env config clusters clusters w))"
    by (auto simp: join_trace split: sum.splits)
  from dstLoop_payload [OF this assms(2)]
  have "\<exists>src\<in>set clusters. p = newSrcSecret src ''istio-system''" .
  then show ?thesis
    by (simp add: newSrcSecret_def newRemoteConfig_def NewConfig_def)
qed


lemmas run_defs = join_def joinPair_def createOrPatch_def readCredentials_def newClient_def
  getServiceAccount_def getSecret_def createSecret_def patchSecret_def jsonMarshal_def
  newSrcSecret_def errOf_def resOf_def traceOf_def worldOf_def Let_def

theorem C2_payload_witness:
  "Api ''a'' 0 (CreateSecret ''istio-system'' (newSrcSecret ''b'' ''istio-system'')) None
     \<in> set (traceOf (join meshEnv [''a'', ''b''] meshWorld))
   \<and> payloadOf (Api ''a'' 0 (CreateSecret ''istio-system'' (newSrcSecret ''b'' ''istio-system'')) None)
       = Some (newSrcSecret ''b'' ''istio-system'')
   \<and> Data (newSrcSecret ''b'' ''istio-system'') = Map.empty
   \<and> Clusters (newRemoteConfig ''ca'' ''https://a'' ''CA'' ''TOKEN'') ''ca'' =
       Some \<lparr>CertificateAuthorityData = ''CA'', Server = ''https://a''\<rparr>"
proof -
  have h1: "Api ''a'' 0 (CreateSecret ''istio-system'' (newSrcSecret ''b'' ''istio-system'')) None
              \<in> set (traceOf (join meshEnv [''a'', ''b''] meshWorld))"
    by (simp add: mesh_defs run_defs)
  have h2: "payloadOf (Api ''a'' 0 (CreateSecret ''istio-system'' (newSrcSecret ''b'' ''istio-system'')) None)
              = Some (newSrcSecret ''b'' ''istio-system'')"
    by simp
  from C2_payload [OF h1 h2, of "''ca''" "''https://a''" "''CA''" "''TOKEN''"]
  have "Data (newSrcSecret ''b'' ''istio-system'') = Map.empty
        \<and> Clusters (newRemoteConfig ''ca'' ''https://a'' ''CA'' ''TOKEN'') ''ca'' =
            Some \<lparr>CertificateAuthorityData = ''CA'', Server = ''https://a''\<rparr>"
    by auto
  with h1 h2 show ?thesis by simp
qed

lemma createOrPatch_frame:
  "worldOf (createOrPatch w dst dstKube ns s) =
     w(dstKube := (w dstKube)\<lparr>secrets := (secrets (w dstKube))
         ((ns, Name s) := secrets (worldOf (createOrPatch w dst dstKube ns s) dstKube) (ns, Name s))\<rparr>)"
  by (auto simp: createOrPatch_def createSecret_def patchSecret_def jsonMarshal_def worldOf_def
        Let_def errOf_def fun_upd_idem split: option.splits)

lemma joinPair_frame:
  "worldOf (joinPair env config dst dstKube src w) =
     w(dstKube := (w dstKube)\<lparr>secrets := (secrets (w dstKube))
         ((''istio-system'', ''istio-mc-'' @ src) :=
            secrets (worldOf (joinPair env config dst dstKube src w) dstKube)
              (''istio-system'', ''istio-mc-'' @ src))\<rparr>)"
proof -
  have same: "w = w(dstKube := (w dstKube)\<lparr>secrets := (secrets (w dstKube))
         ((''istio-system'', ''istio-mc-'' @ src) :=
            secrets (w dstKube) (''istio-system'', ''istio-mc-'' @ src))\<rparr>)"
    by simp
  have name: "Name (newSrcSecret src ''istio-system'') = ''istio-mc-'' @ src"
    by (simp add: newSrcSecret_def)
  have "worldOf (joinPair env config dst dstKube src w) = w
        \<or> worldOf (joinPair env config dst dstKube src w) =
            worldOf (createOrPatch w dst dstKube ''istio-system'' (newSrcSecret src ''istio-system''))"
    by (auto simp: joinPair_def worldOf_def Let_def split: option.splits sum.splits prod.splits)
  then show ?thesis
  proof
    assume "worldOf (joinPair env config dst dstKube src w) = w"
    with same show ?thesis by simp
  next
    assume eq: "worldOf (joinPair env config dst dstKube src w) =
            worldOf (createOrPatch w dst dstKube ''istio-system'' (newSrcSecret src ''istio-system''))"
    show ?thesis
      using createOrPatch_frame [of w dst dstKube "''istio-system''" "newSrcSecret src ''istio-system''"]
      unfolding eq name .
  qed
qed

text \<open>
  Claim C10. Every API call of the exchange for a pair (source, destination) is a get of a
  service account or of a secret through the client of the source, or a create or patch of a
  secret in the namespace \<^verbatim>\<open>istio-system\<close> through the client of the destination. The
  clusters after the pair are the clusters before it, but for the one secret
  \<^verbatim>\<open>istio-mc-\<close>source of \<^verbatim>\<open>istio-system\<close> on the server of the destination.
\<close>

theorem C10_reads_source_writes_destination:
  assumes "e \<in> set (traceOf (joinPair env config dst dstKube src w))" and "isApi e"
  shows "(isSourceRead src e \<or> isDestinationWrite dst dstKube ''istio-system'' e)
         \<and> worldOf (joinPair env config dst dstKube src w) =
             w(dstKube := (w dstKube)\<lparr>secrets := (secrets (w dstKube))
                 ((''istio-system'', ''istio-mc-'' @ src) :=
                    secrets (worldOf (joinPair env config dst dstKube src w) dstKube)
                      (''istio-system'', ''istio-mc-'' @ src))\<rparr>)"
  using joinPair_events [OF assms] joinPair_frame [of env config dst dstKube src w] by blast


theorem C10_reads_source_writes_destination_witness:
  "Api ''b'' 1 (GetServiceAccount ''istio-system'' ''istio-pilot-service-account'') None
     \<in> set (traceOf (joinPair meshEnv meshConfig ''a'' 0 ''b'' meshWorld))
   \<and> isApi (Api ''b'' 1 (GetServiceAccount ''istio-system'' ''istio-pilot-service-account'') None)
   \<and> (isSourceRead ''b''
         (Api ''b'' 1 (GetServiceAccount ''istio-system'' ''istio-pilot-service-account'') None)
       \<or> isDestinationWrite ''a'' 0 ''istio-system''
         (Api ''b'' 1 (GetServiceAccount ''istio-system'' ''istio-pilot-service-account'') None))
   \<and> worldOf (joinPair meshEnv meshConfig ''a'' 0 ''b'' meshWorld) =
       meshWorld(0 := (meshWorld 0)\<lparr>secrets := (secrets (meshWorld 0))
         ((''istio-system'', ''istio-mc-'' @ ''b'') :=
            secrets (worldOf (joinPair meshEnv meshConfig ''a'' 0 ''b'' meshWorld) 0)
              (''istio-system'', ''istio-mc-'' @ ''b''))\<rparr>)"
proof -
  have h1: "Api ''b'' 1 (GetServiceAccount ''istio-system'' ''istio-pilot-service-account'') None
              \<in> set (traceOf (joinPair meshEnv meshConfig ''a'' 0 ''b'' meshWorld))"
    by (simp add: mesh_defs run_defs)
  have h2: "isApi (Api ''b'' 1 (GetServiceAccount ''istio-system'' ''istio-pilot-service-account'') None)"
    by simp
  from C10_reads_source_writes_destination [OF h1 h2] h1 h2 show ?thesis by blast
qed

subsection \<open>Errors of the writes\<close>

text \<open>
  Claim C1. The claim asks for a fatal stop when the create fails with an error other than
  "already exists", and when the patch fails. The code does neither: on the clusters \<open>b\<close>,
  \<open>a\<close> with a server of \<open>b\<close> that forbids the create, the run goes on to the next pair and
  returns nil, and no secret is left on \<open>b\<close>; with a server of \<open>b\<close> that holds the secret and
  forbids the patch, the error is printed, the run goes on and returns nil, and the secret
  keeps its old content.
\<close>

theorem C1_write_errors_not_fatal:
  "fst (join meshEnv [''b'', ''a''] (meshWorld(1 := createRefusedCluster))) = Returned None
   \<and> attempts (traceOf (join meshEnv [''b'', ''a''] (meshWorld(1 := createRefusedCluster)))) =
       [(''a'', ''b''), (''b'', ''a'')]
   \<and> traceOf (join meshEnv [''b'', ''a''] (meshWorld(1 := createRefusedCluster))) ! 3 =
       Api ''b'' 1 (CreateSecret ''istio-system'' (newSrcSecret ''a'' ''istio-system''))
         (Some (Error Forbidden ''secrets is forbidden''))
   \<and> secrets (worldOf (join meshEnv [''b'', ''a''] (meshWorld(1 := createRefusedCluster))) 1)
       (''istio-system'', ''istio-mc-a'') = None
   \<and> fst (join meshEnv [''b'', ''a''] (meshWorld(1 := patchRefusedCluster))) = Returned None
   \<and> attempts (traceOf (join meshEnv [''b'', ''a''] (meshWorld(1 := patchRefusedCluster)))) =
       [(''a'', ''b''), (''b'', ''a'')]
   \<and> traceOf (join meshEnv [''b'', ''a''] (meshWorld(1 := patchRefusedCluster))) ! 6 =
       PatchErr (Some (Error Forbidden ''secrets is forbidden''))
   \<and> map_option Labels
        (secrets (worldOf (join meshEnv [''b'', ''a''] (meshWorld(1 := patchRefusedCluster))) 1)
          (''istio-system'', ''istio-mc-a'')) = Some Map.empty"
  by (simp add: mesh_defs run_defs createRefusedCluster_def patchRefusedCluster_def)

subsection \<open>The number of clusters\<close>

lemma attempts_append: "attempts (xs @ ys) = attempts xs @ attempts ys"
  by (induction xs rule: attempts.induct) simp_all

lemma attempts_exchange_free:
  "(\<And>e. e \<in> set tr \<Longrightarrow> isApi e \<or> e = SecretExists \<or> (\<exists>x. e = PatchErr x) \<or> (\<exists>x. e = PatchResult x))
     \<Longrightarrow> attempts tr = []"
proof (induction tr rule: attempts.induct)
  case 1
  then show ?case by simp
next
  case (2 src dst tr)
  from "2.prems" [of "Joining src dst"] show ?case by simp
qed (fastforce+)

lemma readCredentials_api: "e \<in> set (snd (readCredentials w src srcKube ns san)) \<Longrightarrow> isApi e"
  by (auto simp: readCredentials_def Let_def split: sum.splits if_splits option.splits)

lemma readCredentials_exchange:
  "e \<in> set (snd (readCredentials w src srcKube ns san)) \<Longrightarrow> exchangeEvent e"
  by (auto simp: readCredentials_def Let_def split: sum.splits if_splits option.splits)

lemma createOrPatch_exchange:
  "e \<in> set (traceOf (createOrPatch w dst dstKube ns s)) \<Longrightarrow> exchangeEvent e"
  by (auto simp: createOrPatch_def traceOf_def jsonMarshal_def Let_def split: prod.splits if_splits)

lemma createOrPatch_no_joining:
  "e \<in> set (traceOf (createOrPatch w dst dstKube ns s)) \<Longrightarrow>
     isApi e \<or> e = SecretExists \<or> (\<exists>x. e = PatchErr x) \<or> (\<exists>x. e = PatchResult x)"
  by (auto simp: createOrPatch_def traceOf_def jsonMarshal_def Let_def split: prod.splits if_splits)

lemma createOrPatch_continues: "fst (createOrPatch w dst dstKube ns s) = None"
  by (auto simp: createOrPatch_def jsonMarshal_def Let_def split: prod.splits)

lemma joinPair_shape:
  "\<exists>tr. traceOf (joinPair env config dst dstKube src w) = Joining src dst # tr
        \<and> (\<forall>e\<in>set tr.
             (\<exists>srcKube. e \<in> set (snd (readCredentials w src srcKube ''istio-system''
                                         ''istio-pilot-service-account'')))
             \<or> e \<in> set (traceOf (createOrPatch w dst dstKube ''istio-system''
                                    (newSrcSecret src ''istio-system''))))"
  by (auto simp: joinPair_def traceOf_def Let_def split: option.splits sum.splits prod.splits)
    (metis snd_conv)+

lemma joinPair_exchange:
  "e \<in> set (traceOf (joinPair env config dst dstKube src w)) \<Longrightarrow> exchangeEvent e"
  using joinPair_shape [of env config dst dstKube src w]
  by (auto dest: readCredentials_exchange createOrPatch_exchange)

lemma joinPair_attempts:
  "attempts (traceOf (joinPair env config dst dstKube src w)) = [(src, dst)]"
proof -
  from joinPair_shape [of env config dst dstKube src w] obtain tr where
    tr: "traceOf (joinPair env config dst dstKube src w) = Joining src dst # tr"
    and ev: "\<forall>e\<in>set tr.
             (\<exists>srcKube. e \<in> set (snd (readCredentials w src srcKube ''istio-system''
                                         ''istio-pilot-service-account'')))
             \<or> e \<in> set (traceOf (createOrPatch w dst dstKube ''istio-system''
                                    (newSrcSecret src ''istio-system'')))"
    by blast
  have "attempts tr = []"
  proof (rule attempts_exchange_free)
    fix e assume "e \<in> set tr"
    with ev show "isApi e \<or> e = SecretExists \<or> (\<exists>x. e = PatchErr x) \<or> (\<exists>x. e = PatchResult x)"
      by (auto dest: readCredentials_api createOrPatch_no_joining)
  qed
  with tr show ?thesis by simp
qed

lemma joinPair_outcome:
  "fst (joinPair env config dst dstKube src w) = Some out \<Longrightarrow> fatalOrPanic out"
  using createOrPatch_continues [of w dst dstKube "''istio-system''" "newSrcSecret src ''istio-system''"]
  by (auto simp: joinPair_def Let_def split: option.splits sum.splits prod.splits)

lemma srcLoop_all:
  assumes step: "\<And>src w e. e \<in> set (traceOf (joinPair env config dst dstKube src w)) \<Longrightarrow> P e"
  shows "e \<in> set (traceOf (srcLoop env config dst dstKube srcs w)) \<Longrightarrow> P e"
proof (induction srcs arbitrary: w)
  case Nil
  then show ?case by (simp add: traceOf_def)
next
  case (Cons src rest)
  show ?case
  proof (cases "src = dst")
    case True
    with Cons show ?thesis by auto
  next
    case False
    obtain out tr w1 where jp: "joinPair env config dst dstKube src w = (out, tr, w1)"
      by (cases "joinPair env config dst dstKube src w")
    have here: "e \<in> set tr \<Longrightarrow> P e"
      using step [of e src w] jp by (simp add: traceOf_def)
    show ?thesis
    proof (cases out)
      case (Some stop)
      with False jp Cons.prems here show ?thesis by (auto simp: traceOf_def)
    next
      case None
      with False jp Cons.prems
      have "e \<in> set tr \<or> e \<in> set (traceOf (srcLoop env config dst dstKube rest w1))"
        by (auto simp: traceOf_def split: prod.splits)
      with here Cons.IH [of w1] show ?thesis by auto
    qed
  qed
qed

lemma dstLoop_all:
  assumes step: "\<And>dst dstKube src w e.
                   e \<in> set (traceOf (joinPair env config dst dstKube src w)) \<Longrightarrow> P e"
  shows "e \<in> set (traceOf (dstLoop env config clusters dsts w)) \<Longrightarrow> P e"
proof (induction dsts arbitrary: w)
  case Nil
  then show ?case by (simp add: traceOf_def)
next
  case (Cons dst rest)
  show ?case
  proof (cases "newClient env dst")
    case (Inl err)
    with Cons.prems show ?thesis by (simp add: traceOf_def)
  next
    case (Inr dstKube)
    obtain out tr w1 where sl: "srcLoop env config dst dstKube clusters w = (out, tr, w1)"
      by (cases "srcLoop env config dst dstKube clusters w")
    have here: "e \<in> set tr \<Longrightarrow> P e"
      using srcLoop_all [of env config dst dstKube P e clusters w] step sl
      by (simp add: traceOf_def)
    show ?thesis
    proof (cases out)
      case (Some stop)
      with Inr sl Cons.prems here show ?thesis by (auto simp: traceOf_def)
    next
      case None
      with Inr sl Cons.prems
      have "e \<in> set tr \<or> e \<in> set (traceOf (dstLoop env config clusters rest w1))"
        by (auto simp: traceOf_def split: prod.splits)
      with here Cons.IH [of w1] show ?thesis by auto
    qed
  qed
qed

lemma join_exchange:
  assumes "e \<in> set (traceOf (join env clusters w))"
  shows "exchangeEvent e"
proof -
  from assms obtain config where
    "e \<in> set (traceOf (dstLoop env config clusters clusters w))"
    by (auto simp: join_trace split: sum.splits)
  then show ?thesis
    by (rule dstLoop_all [where P = exchangeEvent, rotated]) (rule joinPair_exchange)
qed

lemma srcLoop_outcome:
  "fst (srcLoop env config dst dstKube srcs w) = Some out \<Longrightarrow> fatalOrPanic out"
proof (induction srcs arbitrary: w)
  case Nil
  then show ?case by simp
next
  case (Cons src rest)
  show ?case
  proof (cases "src = dst")
    case True
    with Cons show ?thesis by auto
  next
    case False
    obtain o1 tr w1 where jp: "joinPair env config dst dstKube src w = (o1, tr, w1)"
      by (cases "joinPair env config dst dstKube src w")
    show ?thesis
    proof (cases o1)
      case (Some stop)
      with False jp Cons.prems joinPair_outcome [of env config dst dstKube src w stop]
      show ?thesis by auto
    next
      case None
      with False jp Cons.prems Cons.IH [of w1] show ?thesis
        by (auto split: prod.splits)
    qed
  qed
qed

lemma dstLoop_outcome:
  "fst (dstLoop env config clusters dsts w) = Some out \<Longrightarrow> fatalOrPanic out"
proof (induction dsts arbitrary: w)
  case Nil
  then show ?case by simp
next
  case (Cons dst rest)
  show ?case
  proof (cases "newClient env dst")
    case (Inl err)
    with Cons.prems show ?thesis by auto
  next
    case (Inr dstKube)
    obtain o1 tr w1 where sl: "srcLoop env config dst dstKube clusters w = (o1, tr, w1)"
      by (cases "srcLoop env config dst dstKube clusters w")
    show ?thesis
    proof (cases o1)
      case (Some stop)
      with Inr sl Cons.prems srcLoop_outcome [of env config dst dstKube clusters w stop]
      show ?thesis by auto
    next
      case None
      with Inr sl Cons.prems Cons.IH [of w1] show ?thesis
        by (auto split: prod.splits)
    qed
  qed
qed

lemma join_outcome:
  "fst (join env clusters w) =
     (case startingConfig env of
        Inl err \<Rightarrow> Returned (Some err)
      | Inr config \<Rightarrow>
          (case fst (dstLoop env config clusters clusters w) of
             Some out \<Rightarrow> out
           | None \<Rightarrow> Returned None))"
  by (auto simp: join_def split: sum.splits prod.splits option.splits)

text \<open>
  Claim C3, as stated: a cluster list whose length is not 2 gives a diagnostic and a non-zero
  exit before any exchange. The check of lines 141-144 stands in the disabled block: with
  three clusters the run prints no such line, performs all six exchanges and returns nil.
\<close>

theorem C3_counterexample:
  "length [''a'', ''b'', ''c''] \<noteq> 2
   \<and> fst (join meshEnv [''a'', ''b'', ''c''] meshWorld) = Returned None
   \<and> attempts (traceOf (join meshEnv [''a'', ''b'', ''c''] meshWorld)) =
       [(''b'', ''a''), (''c'', ''a''), (''a'', ''b''), (''c'', ''b''), (''a'', ''c''), (''b'', ''c'')]
   \<and> OnlyTwoClusters 3 \<notin> set (traceOf (join meshEnv [''a'', ''b'', ''c''] meshWorld))"
  by (simp add: mesh_defs run_defs)


text \<open>
  Claim C3, amended. The command puts no restriction on the number of cluster identifiers:
  for every list, of any length, the line \<^verbatim>\<open>only two clusters supported\<close> is never
  printed and the process never ends through \<^verbatim>\<open>os.Exit\<close>; it ends by returning or by a
  fatal stop or panic of the exchange loop.
\<close>

theorem C3_no_length_restriction:
  "OnlyTwoClusters n \<notin> set (traceOf (join env clusters w))
   \<and> fst (join env clusters w) \<noteq> Exit k"
proof
  show "OnlyTwoClusters n \<notin> set (traceOf (join env clusters w))"
    using join_exchange [of "OnlyTwoClusters n" env clusters w] by auto
  show "fst (join env clusters w) \<noteq> Exit k"
    using dstLoop_outcome [of env _ clusters clusters w "Exit k"]
    by (auto simp: join_outcome split: sum.splits option.splits)
qed


theorem C3_no_length_restriction_witness:
  "OnlyTwoClusters 1 \<notin> set (traceOf (join meshEnv [''a''] meshWorld))
   \<and> fst (join meshEnv [''a''] meshWorld) \<noteq> Exit 1"
  by (rule C3_no_length_restriction)

subsection \<open>Identifiers that the configuration does not know\<close>

lemma newClient_fails: "clientConfig env c = Inl err \<Longrightarrow> newClient env c = Inl err"
  by (simp add: newClient_def)

lemma dstLoop_stops_at_missing:
  "c \<in> set dsts \<Longrightarrow> clientConfig env c = Inl err \<Longrightarrow>
     \<exists>out. fst (dstLoop env config clusters dsts w) = Some out"
proof (induction dsts arbitrary: w)
  case Nil
  then show ?case by simp
next
  case (Cons dst rest)
  show ?case
  proof (cases "newClient env dst")
    case (Inl e)
    then show ?thesis by simp
  next
    case (Inr dstKube)
    with Cons.prems newClient_fails [of env c err] have "c \<in> set rest" by auto
    obtain o1 tr w1 where sl: "srcLoop env config dst dstKube clusters w = (o1, tr, w1)"
      by (cases "srcLoop env config dst dstKube clusters w")
    from Cons.IH [OF \<open>c \<in> set rest\<close> Cons.prems(2), of w1] Inr sl show ?thesis
      by (cases o1) (auto split: prod.splits)
  qed
qed

lemma joinPair_no_client:
  "newClient env src = Inl err \<Longrightarrow>
     traceOf (joinPair env config dst dstKube src w) = [Joining src dst]
     \<and> fst (joinPair env config dst dstKube src w) \<noteq> None"
  by (auto simp: joinPair_def traceOf_def Let_def split: option.splits)

lemma joinPair_client_refused:
  "usable env config dst \<Longrightarrow> newClient env src = Inl err \<Longrightarrow>
     fst (joinPair env config dst dstKube src w) = Some (Fatal (errorText err))"
  by (auto simp: joinPair_def usable_def Let_def split: option.splits)

lemma take_two_cases:
  assumes "c \<in> set (take 2 clusters)"
  obtains rest where "clusters = c # rest"
  | x rest where "clusters = x # c # rest" and "x \<noteq> c"
proof (cases clusters)
  case Nil
  with assms show ?thesis by simp
next
  case (Cons x xs)
  show ?thesis
  proof (cases "x = c")
    case True
    with Cons that(1) show ?thesis by simp
  next
    case False
    with assms Cons have "c \<in> set (take 1 xs)" by (simp add: numeral_2_eq_2)
    then obtain rest where "xs = c # rest" by (cases xs) auto
    with Cons False that(2) show ?thesis by simp
  qed
qed

lemma srcLoop_stops_at_second:
  assumes "x \<noteq> c" and "newClient env c = Inl err"
  shows "traceOf (srcLoop env config x k (x # c # rest) w) = [Joining c x]
         \<and> fst (srcLoop env config x k (x # c # rest) w) = fst (joinPair env config x k c w)
         \<and> fst (joinPair env config x k c w) \<noteq> None"
proof -
  obtain o1 tr w1 where jp: "joinPair env config x k c w = (o1, tr, w1)"
    by (cases "joinPair env config x k c w")
  from joinPair_no_client [OF assms(2), of config x k w] jp
  have "tr = [Joining c x]" and "o1 \<noteq> None" by (simp_all add: traceOf_def)
  with assms(1) jp show ?thesis by (auto simp: traceOf_def)
qed

lemma first_two_no_api:
  assumes "c \<in> set (take 2 clusters)" and "clientConfig env c = Inl err"
  shows "\<not> list_ex isApi (traceOf (dstLoop env config clusters clusters w))"
  using assms(1)
proof (cases rule: take_two_cases)
  case (1 rest)
  with newClient_fails [OF assms(2)] show ?thesis by (simp add: traceOf_def)
next
  case (2 x rest)
  show ?thesis
  proof (cases "newClient env x")
    case (Inl e)
    with 2 show ?thesis by (simp add: traceOf_def)
  next
    case (Inr k)
    from srcLoop_stops_at_second [OF 2(2) newClient_fails [OF assms(2)], of config k rest w]
    obtain out w1 where "srcLoop env config x k (x # c # rest) w = (Some out, [Joining c x], w1)"
      by (cases "srcLoop env config x k (x # c # rest) w") (auto simp: traceOf_def)
    with 2 Inr show ?thesis by (simp add: traceOf_def)
  qed
qed

lemma first_two_diagnostic:
  assumes "c \<in> set (take 2 clusters)" and "clientConfig env c = Inl err"
    and "\<forall>x\<in>set (take 2 clusters). x = c \<or> usable env config x"
  shows "fst (dstLoop env config clusters clusters w) = Some (Fatal (errorText err))"
  using assms(1)
proof (cases rule: take_two_cases)
  case (1 rest)
  with newClient_fails [OF assms(2)] show ?thesis by simp
next
  case (2 x rest)
  with assms(3) have ux: "usable env config x" by (simp add: numeral_2_eq_2)
  then obtain k where k: "newClient env x = Inr k"
    by (cases "newClient env x") (auto simp: usable_def split: option.splits)
  from srcLoop_stops_at_second [OF 2(2) newClient_fails [OF assms(2)], of config k rest w]
    joinPair_client_refused [OF ux newClient_fails [OF assms(2)], of k w]
  obtain tr w1 where
    "srcLoop env config x k (x # c # rest) w = (Some (Fatal (errorText err)), tr, w1)"
    by (cases "srcLoop env config x k (x # c # rest) w") auto
  with 2 k show ?thesis by simp
qed

text \<open>
  Claim C4, as stated: when a supplied identifier is not among the contexts of the
  configuration, the process exits before any API call, with a diagnostic that names the
  identifier. The look-up of lines 148-154 stands in the disabled block. With the clusters
  \<open>a\<close>, \<open>b\<close>, \<open>d\<close>, where \<open>d\<close> is unknown, the exchange of \<open>b\<close> to \<open>a\<close> reads from \<open>b\<close> and
  writes to \<open>a\<close> before the run stops at \<open>d\<close>; when the service account of \<open>b\<close> references
  no secret, the run stops there, with the diagnostic \<^verbatim>\<open><nil>\<close>; and with the clusters
  \<open>a\<close>, \<open>d\<close>, when no client can be made for \<open>a\<close>, the diagnostic is the error of \<open>a\<close>.
\<close>

theorem C4_counterexample:
  "''d'' \<in> set [''a'', ''b'', ''d'']
   \<and> Contexts meshConfig ''d'' = None
   \<and> traceOf (join meshEnv [''a'', ''b'', ''d''] meshWorld) ! 1 =
       Api ''b'' 1 (GetServiceAccount ''istio-system'' ''istio-pilot-service-account'') None
   \<and> traceOf (join meshEnv [''a'', ''b'', ''d''] meshWorld) ! 3 =
       Api ''a'' 0 (CreateSecret ''istio-system'' (newSrcSecret ''b'' ''istio-system'')) None
   \<and> fst (join meshEnv [''a'', ''b'', ''d''] meshWorld) = Fatal ''context not found: d''
   \<and> fst (join meshEnv [''a'', ''b'', ''d''] (meshWorld(1 := noSecretCluster))) = Fatal ''<nil>''
   \<and> fst (join (meshEnv\<lparr>newForConfig := (\<lambda>rest. Some (Error Unknown ''no transport''))\<rparr>)
             [''a'', ''d''] meshWorld) = Fatal ''no transport''"
  by (simp add: mesh_defs run_defs noSecretCluster_def)

text \<open>
  Claim C4, amended. When a supplied identifier is not among the contexts of the loaded
  configuration and the client configuration of that identifier cannot be built, the process
  never returns: it ends with \<^verbatim>\<open>log.Fatal\<close> or a panic. The line
  \<^verbatim>\<open>cluster ... configuration not found\<close> is never printed. When the identifier is the
  first or the second of the list, no API call is issued before the stop; when moreover the
  other of the first two identifiers is usable, the diagnostic is the text of the error with
  which the client configuration of the missing identifier was refused.
\<close>

theorem C4_missing_context:
  assumes "startingConfig env = Inr config"
    and "c \<in> set clusters"
    and "Contexts config c = None"
    and "clientConfig env c = Inl err"
  shows "fatalOrPanic (fst (join env clusters w))
         \<and> ConfigNotFound c \<notin> set (traceOf (join env clusters w))
         \<and> (c \<in> set (take 2 clusters) \<longrightarrow> \<not> list_ex isApi (traceOf (join env clusters w)))
         \<and> (c \<in> set (take 2 clusters)
              \<and> (\<forall>x\<in>set (take 2 clusters). x = c \<or> usable env config x)
             \<longrightarrow> fst (join env clusters w) = Fatal (errorText err))"
proof -
  from dstLoop_stops_at_missing [OF assms(2,4), of config clusters w] obtain out where
    out: "fst (dstLoop env config clusters clusters w) = Some out" by blast
  from dstLoop_outcome [OF out] out assms(1)
  have 1: "fatalOrPanic (fst (join env clusters w))" by (simp add: join_outcome)
  have 2: "ConfigNotFound c \<notin> set (traceOf (join env clusters w))"
    using join_exchange [of "ConfigNotFound c" env clusters w] by auto
  have 3: "c \<in> set (take 2 clusters) \<longrightarrow> \<not> list_ex isApi (traceOf (join env clusters w))"
    using first_two_no_api [OF _ assms(4), of clusters config w] assms(1)
    by (simp add: join_trace)
  have 4: "c \<in> set (take 2 clusters)
             \<and> (\<forall>x\<in>set (take 2 clusters). x = c \<or> usable env config x)
           \<longrightarrow> fst (join env clusters w) = Fatal (errorText err)"
    using first_two_diagnostic [OF _ assms(4), of clusters config w] assms(1)
    by (simp add: join_outcome)
  from 1 2 3 4 show ?thesis by blast
qed

theorem C4_missing_context_witness:
  "startingConfig meshEnv = Inr meshConfig
   \<and> ''d'' \<in> set [''a'', ''d'']
   \<and> Contexts meshConfig ''d'' = None
   \<and> clientConfig meshEnv ''d'' = Inl (Error Unknown ''context not found: d'')
   \<and> ''d'' \<in> set (take 2 [''a'', ''d''])
   \<and> usable meshEnv meshConfig ''a''
   \<and> fatalOrPanic (fst (join meshEnv [''a'', ''d''] meshWorld))
   \<and> ConfigNotFound ''d'' \<notin> set (traceOf (join meshEnv [''a'', ''d''] meshWorld))
   \<and> \<not> list_ex isApi (traceOf (join meshEnv [''a'', ''d''] meshWorld))
   \<and> fst (join meshEnv [''a'', ''d''] meshWorld) = Fatal ''context not found: d''"
proof -
  have h1: "startingConfig meshEnv = Inr meshConfig" by (simp add: meshEnv_def)
  have h2: "''d'' \<in> set [''a'', ''d'']" by simp
  have h3: "Contexts meshConfig ''d'' = None" by (simp add: meshConfig_def)
  have h4: "clientConfig meshEnv ''d'' = Inl (Error Unknown ''context not found: d'')"
    by (simp add: meshEnv_def)
  have h5: "''d'' \<in> set (take 2 [''a'', ''d''])" by (simp add: numeral_2_eq_2)
  have h6: "usable meshEnv meshConfig ''a''"
    by (simp add: usable_def newClient_def meshEnv_def meshConfig_def)
  have h7: "\<forall>x\<in>set (take 2 [''a'', ''d'']). x = ''d'' \<or> usable meshEnv meshConfig x"
    using h6 by (simp add: numeral_2_eq_2)
  from C4_missing_context [OF h1 h2 h3 h4, of meshWorld] h1 h2 h3 h4 h5 h6 h7
  show ?thesis by simp
qed

subsection \<open>The exchanges of a run\<close>

lemma srcLoop_attempts:
  "fst (srcLoop env config dst dstKube srcs w) = None \<Longrightarrow>
     attempts (traceOf (srcLoop env config dst dstKube srcs w)) =
       map (\<lambda>src. (src, dst)) (filter (\<lambda>src. src \<noteq> dst) srcs)"
proof (induction srcs arbitrary: w)
  case Nil
  then show ?case by (simp add: traceOf_def)
next
  case (Cons src rest)
  show ?case
  proof (cases "src = dst")
    case True
    with Cons show ?thesis by (simp add: traceOf_def)
  next
    case False
    obtain o1 tr w1 where jp: "joinPair env config dst dstKube src w = (o1, tr, w1)"
      by (cases "joinPair env config dst dstKube src w")
    from joinPair_attempts [of env config dst dstKube src w] jp
    have tr: "attempts tr = [(src, dst)]" by (simp add: traceOf_def)
    from False jp Cons.prems have o1: "o1 = None"
      by (cases o1) auto
    with False jp Cons.prems have "fst (srcLoop env config dst dstKube rest w1) = None"
      by (auto split: prod.splits)
    from Cons.IH [OF this] False jp o1 tr show ?thesis
      by (auto simp: traceOf_def attempts_append split: prod.splits)
  qed
qed

lemma dstLoop_attempts:
  "fst (dstLoop env config clusters dsts w) = None \<Longrightarrow>
     attempts (traceOf (dstLoop env config clusters dsts w)) =
       concat (map (\<lambda>dst. map (\<lambda>src. (src, dst)) (filter (\<lambda>src. src \<noteq> dst) clusters)) dsts)"
proof (induction dsts arbitrary: w)
  case Nil
  then show ?case by (simp add: traceOf_def)
next
  case (Cons dst rest)
  show ?case
  proof (cases "newClient env dst")
    case (Inl err)
    with Cons.prems show ?thesis by simp
  next
    case (Inr dstKube)
    obtain o1 tr w1 where sl: "srcLoop env config dst dstKube clusters w = (o1, tr, w1)"
      by (cases "srcLoop env config dst dstKube clusters w")
    from Inr sl Cons.prems have o1: "o1 = None"
      by (cases o1) auto
    with srcLoop_attempts [of env config dst dstKube clusters w] sl
    have tr: "attempts tr = map (\<lambda>src. (src, dst)) (filter (\<lambda>src. src \<noteq> dst) clusters)"
      by (simp add: traceOf_def)
    from o1 Inr sl Cons.prems have "fst (dstLoop env config clusters rest w1) = None"
      by (auto split: prod.splits)
    from Cons.IH [OF this] Inr sl o1 tr show ?thesis
      by (auto simp: traceOf_def attempts_append split: prod.splits)
  qed
qed

lemma length_others:
  "distinct xs \<Longrightarrow> x \<in> set xs \<Longrightarrow> length (filter (\<lambda>y. y \<noteq> x) xs) = length xs - 1"
proof (induction xs)
  case Nil
  then show ?case by simp
next
  case (Cons a xs)
  show ?case
  proof (cases "a = x")
    case True
    with Cons.prems have "x \<notin> set xs" by simp
    then have "filter (\<lambda>y. y \<noteq> x) xs = xs" by (induction xs) auto
    with True show ?thesis by simp
  next
    case False
    with Cons have "length (filter (\<lambda>y. y \<noteq> x) xs) = length xs - 1" and "x \<in> set xs" by auto
    moreover from \<open>x \<in> set xs\<close> have "0 < length xs" by (cases xs) auto
    ultimately show ?thesis using False by simp
  qed
qed

lemma length_pairs_sub:
  "distinct clusters \<Longrightarrow> set dsts \<subseteq> set clusters \<Longrightarrow>
     length (concat (map (\<lambda>dst. map (\<lambda>src. (src, dst)) (filter (\<lambda>src. src \<noteq> dst) clusters)) dsts)) =
       length dsts * (length clusters - 1)"
  by (induction dsts) (simp_all add: length_others)

lemma length_pairsOf:
  "distinct clusters \<Longrightarrow> length (pairsOf clusters) = length clusters * (length clusters - 1)"
  by (simp add: pairsOf_def length_pairs_sub)

text \<open>
  Claim C5, as stated: a cluster list of size N gives exactly N (N - 1) exchange attempts,
  2 when N = 2. The inner loop skips a source that equals the destination (line 364), by
  comparing the identifiers: the list \<open>a\<close>, \<open>a\<close> has size 2 and gives no attempt.
\<close>

theorem C5_counterexample:
  "length [''a'', ''a''] = 2
   \<and> fst (join meshEnv [''a'', ''a''] meshWorld) = Returned None
   \<and> attempts (traceOf (join meshEnv [''a'', ''a''] meshWorld)) = []
   \<and> length (attempts (traceOf (join meshEnv [''a'', ''a''] meshWorld))) \<noteq> 2 * (2 - 1)"
  by (simp add: mesh_defs run_defs)

text \<open>
  Claim C5, amended. A run that returns nil has attempted one exchange for every ordered pair
  of entries of the cluster list with different identifiers, destinations in the outer loop
  and sources in the inner one. For a list of N pairwise distinct identifiers these are
  exactly N (N - 1) attempts, hence 2 when N = 2.
\<close>

theorem C5_attempts:
  assumes "fst (join env clusters w) = Returned None"
  shows "attempts (traceOf (join env clusters w)) = pairsOf clusters
         \<and> (distinct clusters \<longrightarrow>
              length (attempts (traceOf (join env clusters w))) =
                length clusters * (length clusters - 1))"
proof -
  from assms obtain config where cfg: "startingConfig env = Inr config"
    by (cases "startingConfig env") (auto simp: join_outcome)
  with assms have "fst (dstLoop env config clusters clusters w) = None"
    using dstLoop_outcome [of env config clusters clusters w "Returned None"]
    by (cases "fst (dstLoop env config clusters clusters w)") (auto simp: join_outcome)
  from dstLoop_attempts [OF this] cfg
  have "attempts (traceOf (join env clusters w)) = pairsOf clusters"
    by (simp add: join_trace pairsOf_def)
  then show ?thesis by (simp add: length_pairsOf)
qed

theorem C5_attempts_witness:
  "fst (join meshEnv [''a'', ''b''] meshWorld) = Returned None
   \<and> distinct [''a'', ''b'']
   \<and> attempts (traceOf (join meshEnv [''a'', ''b''] meshWorld)) = [(''b'', ''a''), (''a'', ''b'')]
   \<and> length (attempts (traceOf (join meshEnv [''a'', ''b''] meshWorld))) = 2"
proof -
  have h1: "fst (join meshEnv [''a'', ''b''] meshWorld) = Returned None"
    by (simp add: mesh_defs run_defs)
  have h2: "distinct [''a'', ''b'']" by simp
  from C5_attempts [OF h1] h1 h2 show ?thesis by (simp add: pairsOf_def)
qed

subsection \<open>The secret on the destination\<close>

lemma map_add_twice: "(m ++ n) ++ n = m ++ n"
  by (simp add: map_add_def fun_eq_iff split: option.splits)

lemma createOrPatch_label:
  assumes "list_all apiOk (traceOf (createOrPatch w dst dstKube ns (newSrcSecret src ns)))"
  shows "map_option (\<lambda>x. Labels x ''istio/multiCluster'')
           (secrets (worldOf (createOrPatch w dst dstKube ns (newSrcSecret src ns)) dstKube)
              (ns, ''istio-mc-'' @ src)) = Some (Some ''true'')"
  using assms
  by (auto simp: createOrPatch_def createSecret_def patchSecret_def jsonMarshal_def worldOf_def
        traceOf_def newSrcSecret_def Let_def errOf_def split: option.splits if_splits)

lemma joinPair_completed:
  assumes "fst (joinPair env config dst dstKube src w) = None"
  shows "\<exists>srcKube cred tr.
           newClient env src = Inr srcKube
           \<and> readCredentials w src srcKube ''istio-system'' ''istio-pilot-service-account'' =
               (Inr cred, tr)
           \<and> traceOf (joinPair env config dst dstKube src w) =
               Joining src dst # tr @
                 traceOf (createOrPatch w dst dstKube ''istio-system'' (newSrcSecret src ''istio-system''))
           \<and> worldOf (joinPair env config dst dstKube src w) =
               worldOf (createOrPatch w dst dstKube ''istio-system'' (newSrcSecret src ''istio-system''))"
  using assms
  by (auto simp: joinPair_def traceOf_def worldOf_def Let_def
        split: option.splits sum.splits prod.splits)

lemma joinPair_label:
  assumes "fst (joinPair env config dst dstKube src w) = None"
    and "list_all apiOk (traceOf (joinPair env config dst dstKube src w))"
  shows "map_option (\<lambda>x. Labels x ''istio/multiCluster'')
           (secrets (worldOf (joinPair env config dst dstKube src w) dstKube)
              (''istio-system'', ''istio-mc-'' @ src)) = Some (Some ''true'')"
proof -
  from joinPair_completed [OF assms(1)] obtain tr where
    t: "traceOf (joinPair env config dst dstKube src w) =
          Joining src dst # tr @
            traceOf (createOrPatch w dst dstKube ''istio-system'' (newSrcSecret src ''istio-system''))"
    and w: "worldOf (joinPair env config dst dstKube src w) =
          worldOf (createOrPatch w dst dstKube ''istio-system'' (newSrcSecret src ''istio-system''))"
    by blast
  from assms(2) t
  have "list_all apiOk
          (traceOf (createOrPatch w dst dstKube ''istio-system'' (newSrcSecret src ''istio-system'')))"
    by simp
  from createOrPatch_label [OF this] w show ?thesis by simp
qed

lemma srcLoop_first_of_two:
  "a \<noteq> b \<Longrightarrow> srcLoop env config a k [a, b] w = joinPair env config a k b w"
  by (auto split: prod.splits option.splits)

lemma srcLoop_second_of_two:
  "a \<noteq> b \<Longrightarrow> srcLoop env config b k [a, b] w = joinPair env config b k a w"
  by (auto split: prod.splits option.splits)

lemma dstLoop_two:
  assumes "a \<noteq> b" and "fst (dstLoop env config [a, b] [a, b] w) = None"
  shows "\<exists>aKube bKube tr1 w1.
           newClient env a = Inr aKube
           \<and> newClient env b = Inr bKube
           \<and> joinPair env config a aKube b w = (None, tr1, w1)
           \<and> fst (joinPair env config b bKube a w1) = None
           \<and> traceOf (dstLoop env config [a, b] [a, b] w) =
               tr1 @ traceOf (joinPair env config b bKube a w1)
           \<and> worldOf (dstLoop env config [a, b] [a, b] w) =
               worldOf (joinPair env config b bKube a w1)"
proof -
  from assms(2) obtain aKube where ka: "newClient env a = Inr aKube"
    by (cases "newClient env a") auto
  obtain o1 tr1 w1 where r1: "joinPair env config a aKube b w = (o1, tr1, w1)"
    by (cases "joinPair env config a aKube b w")
  from assms ka r1 have o1: "o1 = None"
    by (cases o1) (auto simp: srcLoop_first_of_two)
  from assms ka r1 o1 obtain bKube where kb: "newClient env b = Inr bKube"
    by (cases "newClient env b") (auto simp: srcLoop_first_of_two)
  obtain o2 tr2 w2 where r2: "joinPair env config b bKube a w1 = (o2, tr2, w2)"
    by (cases "joinPair env config b bKube a w1")
  from assms ka r1 o1 kb r2 have o2: "o2 = None"
    by (cases o2) (auto simp: srcLoop_first_of_two srcLoop_second_of_two)
  from assms(1) ka r1 o1 kb r2 o2
  have "traceOf (dstLoop env config [a, b] [a, b] w) = tr1 @ tr2"
    and "worldOf (dstLoop env config [a, b] [a, b] w) = w2"
    by (simp_all add: srcLoop_first_of_two srcLoop_second_of_two traceOf_def worldOf_def)
  with ka kb r1 o1 r2 o2 show ?thesis by (simp add: traceOf_def worldOf_def)
qed

lemma join_world:
  "worldOf (join env clusters w) =
     (case startingConfig env of
        Inl err \<Rightarrow> w
      | Inr config \<Rightarrow> worldOf (dstLoop env config clusters clusters w))"
  by (auto simp: join_def worldOf_def split: sum.splits prod.splits option.splits)

lemma join_returns:
  assumes "fst (join env clusters w) = Returned None"
  shows "\<exists>config. startingConfig env = Inr config
                  \<and> fst (dstLoop env config clusters clusters w) = None"
proof -
  from assms obtain config where cfg: "startingConfig env = Inr config"
    by (cases "startingConfig env") (auto simp: join_outcome)
  with assms have "fst (dstLoop env config clusters clusters w) = None"
    using dstLoop_outcome [of env config clusters clusters w "Returned None"]
    by (cases "fst (dstLoop env config clusters clusters w)") (auto simp: join_outcome)
  with cfg show ?thesis by blast
qed

lemma join_two:
  assumes "a \<noteq> b" and "fst (join env [a, b] w) = Returned None"
  shows "\<exists>config bKube w1.
           newClient env b = Inr bKube
           \<and> fst (joinPair env config b bKube a w1) = None
           \<and> set (traceOf (joinPair env config b bKube a w1)) \<subseteq> set (traceOf (join env [a, b] w))
           \<and> worldOf (join env [a, b] w) = worldOf (joinPair env config b bKube a w1)"
proof -
  from join_returns [OF assms(2)] obtain config where
    cfg: "startingConfig env = Inr config"
    and d: "fst (dstLoop env config [a, b] [a, b] w) = None" by blast
  from dstLoop_two [OF assms(1) d] obtain bKube tr1 w1 where
    "newClient env b = Inr bKube"
    "fst (joinPair env config b bKube a w1) = None"
    "traceOf (dstLoop env config [a, b] [a, b] w) = tr1 @ traceOf (joinPair env config b bKube a w1)"
    "worldOf (dstLoop env config [a, b] [a, b] w) = worldOf (joinPair env config b bKube a w1)"
    by blast
  with cfg show ?thesis
    by (auto simp: join_trace join_world)
qed

text \<open>
  Claim C9. For two different clusters \<open>a\<close> and \<open>b\<close>, after a successful run (it returns nil
  and every API call succeeded, the service account of \<open>a\<close> and its one secret with
  \<^verbatim>\<open>ca.crt\<close> and \<^verbatim>\<open>token\<close> among them), the server of \<open>b\<close> holds, in the namespace
  \<^verbatim>\<open>istio-system\<close>, a secret under the name \<^verbatim>\<open>istio-mc-\<close> followed by \<open>a\<close>, with the label
  \<^verbatim>\<open>istio/multiCluster=true\<close>.
\<close>

theorem C9_secret_on_destination:
  assumes "a \<noteq> b"
    and "fst (join env [a, b] w) = Returned None"
    and "list_all apiOk (traceOf (join env [a, b] w))"
    and "newClient env b = Inr bKube"
  shows "map_option (\<lambda>s. Labels s ''istio/multiCluster'')
           (secrets (worldOf (join env [a, b] w) bKube) (''istio-system'', ''istio-mc-'' @ a)) =
         Some (Some ''true'')"
proof -
  from join_two [OF assms(1,2)] assms(4) obtain config w1 where
    c: "fst (joinPair env config b bKube a w1) = None"
    and t: "set (traceOf (joinPair env config b bKube a w1)) \<subseteq> set (traceOf (join env [a, b] w))"
    and e: "worldOf (join env [a, b] w) = worldOf (joinPair env config b bKube a w1)"
    by auto
  from assms(3) t have "list_all apiOk (traceOf (joinPair env config b bKube a w1))"
    by (auto simp: list_all_iff)
  from joinPair_label [OF c this] e show ?thesis by simp
qed

theorem C9_secret_on_destination_witness:
  "''a'' \<noteq> ''b''
   \<and> fst (join meshEnv [''a'', ''b''] meshWorld) = Returned None
   \<and> list_all apiOk (traceOf (join meshEnv [''a'', ''b''] meshWorld))
   \<and> newClient meshEnv ''b'' = Inr 1
   \<and> map_option (\<lambda>s. Labels s ''istio/multiCluster'')
        (secrets (worldOf (join meshEnv [''a'', ''b''] meshWorld) 1)
           (''istio-system'', ''istio-mc-'' @ ''a'')) = Some (Some ''true'')"
proof -
  have h1: "''a'' \<noteq> ''b''" by simp
  have h2: "fst (join meshEnv [''a'', ''b''] meshWorld) = Returned None"
    by (simp add: mesh_defs run_defs)
  have h3: "list_all apiOk (traceOf (join meshEnv [''a'', ''b''] meshWorld))"
    by (simp add: mesh_defs run_defs)
  have h4: "newClient meshEnv ''b'' = Inr 1"
    by (simp add: newClient_def meshEnv_def)
  from C9_secret_on_destination [OF h1 h2 h3 h4] h1 h2 h3 h4 show ?thesis by blast
qed


subsection \<open>Running an exchange again\<close>

lemma map_add_same: "m ++ m = m"
  by (simp add: map_add_def fun_eq_iff split: option.splits)

lemma createOrPatch_static:
  "fault (worldOf (createOrPatch w dst dstKube ns s) a) = fault (w a)
   \<and> serviceAccounts (worldOf (createOrPatch w dst dstKube ns s) a) = serviceAccounts (w a)"
  by (auto simp: createOrPatch_def createSecret_def patchSecret_def jsonMarshal_def worldOf_def
        Let_def errOf_def split: option.splits)

lemma createOrPatch_keeps_data:
  assumes "secrets (w a) key = Some ps" and "Data s = Map.empty"
  shows "\<exists>ps'. secrets (worldOf (createOrPatch w dst dstKube ns s) a) key = Some ps'
               \<and> Data ps' = Data ps"
  using assms
  by (auto simp: createOrPatch_def createSecret_def patchSecret_def jsonMarshal_def worldOf_def
        Let_def errOf_def split: option.splits)

lemma readCredentials_again:
  assumes "readCredentials w src srcKube ns san = (Inr cred, tr)" and "Data s = Map.empty"
  shows "readCredentials (worldOf (createOrPatch w dst dstKube ns' s)) src srcKube ns san =
           (Inr cred, tr)"
proof -
  let ?w = "worldOf (createOrPatch w dst dstKube ns' s)"
  have sa: "getServiceAccount (?w srcKube) ns san = getServiceAccount (w srcKube) ns san"
    using createOrPatch_static [of w dst dstKube ns' s srcKube]
    by (auto simp: getServiceAccount_def split: option.splits)
  from assms(1) obtain acc where acc: "getServiceAccount (w srcKube) ns san = Inr acc"
    and one: "length (Secrets acc) = 1"
    by (auto simp: readCredentials_def Let_def split: sum.splits if_splits)
  from assms(1) acc one obtain ps where ps: "getSecret (w srcKube) ns (hd (Secrets acc)) = Inr ps"
    by (auto simp: readCredentials_def Let_def split: sum.splits)
  then have stored: "secrets (w srcKube) (ns, hd (Secrets acc)) = Some ps"
    and nofault: "fault (w srcKube) (GetSecret ns (hd (Secrets acc))) = None"
    by (auto simp: getSecret_def split: option.splits)
  from createOrPatch_keeps_data
         [where w = w and a = srcKube and dst = dst and dstKube = dstKube and ns = ns',
          OF stored assms(2)]
  obtain ps' where
    stored': "secrets (?w srcKube) (ns, hd (Secrets acc)) = Some ps'" and d: "Data ps' = Data ps"
    by blast
  from stored' nofault createOrPatch_static [of w dst dstKube ns' s srcKube]
  have ps': "getSecret (?w srcKube) ns (hd (Secrets acc)) = Inr ps'"
    by (simp add: getSecret_def)
  from assms(1) acc one ps sa ps' d show ?thesis
    by (auto simp: readCredentials_def Let_def split: option.splits)
qed

lemma createOrPatch_again:
  assumes "list_all apiOk (traceOf (createOrPatch w dst dstKube ns s))"
  shows "worldOf (createOrPatch (worldOf (createOrPatch w dst dstKube ns s)) dst dstKube ns s) =
           worldOf (createOrPatch w dst dstKube ns s)
         \<and> list_ex isConflict
             (traceOf (createOrPatch (worldOf (createOrPatch w dst dstKube ns s)) dst dstKube ns s))
         \<and> list_ex (\<lambda>e. isPatch e \<and> payloadOf e = Some s)
             (traceOf (createOrPatch (worldOf (createOrPatch w dst dstKube ns s)) dst dstKube ns s))"
  using assms
  by (auto simp: createOrPatch_def createSecret_def patchSecret_def jsonMarshal_def worldOf_def
        traceOf_def Let_def errOf_def map_add_same map_add_twice split: option.splits if_splits)


lemma joinPair_write:
  assumes "Contexts config dst = Some dctx"
    and "Clusters config (Cluster dctx) = Some cl"
    and "newClient env src = Inr srcKube"
    and "readCredentials w src srcKube ''istio-system'' ''istio-pilot-service-account'' =
           (Inr cred, tr)"
  shows "joinPair env config dst dstKube src w =
           (fst (createOrPatch w dst dstKube ''istio-system'' (newSrcSecret src ''istio-system'')),
            Joining src dst # tr @
              traceOf (createOrPatch w dst dstKube ''istio-system'' (newSrcSecret src ''istio-system'')),
            worldOf (createOrPatch w dst dstKube ''istio-system'' (newSrcSecret src ''istio-system'')))"
  using assms
  by (auto simp: joinPair_def traceOf_def worldOf_def Let_def split: prod.splits)

lemma joinPair_reached_write:
  assumes "fst (joinPair env config dst dstKube src w) = None"
  shows "\<exists>dctx cl srcKube cred tr.
           Contexts config dst = Some dctx
           \<and> Clusters config (Cluster dctx) = Some cl
           \<and> newClient env src = Inr srcKube
           \<and> readCredentials w src srcKube ''istio-system'' ''istio-pilot-service-account'' =
               (Inr cred, tr)"
  using assms
  by (auto simp: joinPair_def Let_def split: option.splits sum.splits prod.splits)

text \<open>
  Claim C6. When the exchange of a pair has completed with every API call succeeded, running
  it again on the clusters it left, the source credentials as they were, completes again and
  leaves the clusters, so the secret on the destination, exactly as the first run left them;
  in the second run the create fails with "already exists" and a patch with the same payload
  is issued.
\<close>

theorem C6_second_run_patches:
  assumes "fst (joinPair env config dst dstKube src w) = None"
    and "list_all apiOk (traceOf (joinPair env config dst dstKube src w))"
  shows "fst (joinPair env config dst dstKube src
                (worldOf (joinPair env config dst dstKube src w))) = None
         \<and> worldOf (joinPair env config dst dstKube src
                (worldOf (joinPair env config dst dstKube src w))) =
             worldOf (joinPair env config dst dstKube src w)
         \<and> list_ex isConflict
             (traceOf (joinPair env config dst dstKube src
                (worldOf (joinPair env config dst dstKube src w))))
         \<and> list_ex (\<lambda>e. isPatch e \<and> payloadOf e = Some (newSrcSecret src ''istio-system''))
             (traceOf (joinPair env config dst dstKube src
                (worldOf (joinPair env config dst dstKube src w))))"
proof -
  let ?s = "newSrcSecret src ''istio-system''"
  let ?w1 = "worldOf (createOrPatch w dst dstKube ''istio-system'' ?s)"
  from joinPair_reached_write [OF assms(1)] obtain dctx cl srcKube cred tr where
    ctx: "Contexts config dst = Some dctx"
    and cl: "Clusters config (Cluster dctx) = Some cl"
    and client: "newClient env src = Inr srcKube"
    and rc: "readCredentials w src srcKube ''istio-system'' ''istio-pilot-service-account'' =
               (Inr cred, tr)"
    by blast
  note first = joinPair_write [OF ctx cl client rc, of dstKube]
  from first have w1: "worldOf (joinPair env config dst dstKube src w) = ?w1"
    by (simp add: worldOf_def)
  from first assms(2)
  have ok: "list_all apiOk (traceOf (createOrPatch w dst dstKube ''istio-system'' ?s))"
    by (simp add: traceOf_def)
  have empty: "Data ?s = Map.empty" by (simp add: newSrcSecret_def)
  from readCredentials_again [OF rc empty, of dst dstKube "''istio-system''"]
  have rc1: "readCredentials ?w1 src srcKube ''istio-system'' ''istio-pilot-service-account'' =
               (Inr cred, tr)" .
  note second = joinPair_write [OF ctx cl client rc1, of dstKube]
  note again = createOrPatch_again [OF ok]
  have 1: "fst (joinPair env config dst dstKube src ?w1) = None"
    using second by (simp add: createOrPatch_continues)
  have 2: "worldOf (joinPair env config dst dstKube src ?w1) = ?w1"
    using second again by (simp add: worldOf_def)
  have 3: "list_ex isConflict (traceOf (joinPair env config dst dstKube src ?w1))"
    using second again by (simp add: traceOf_def)
  have 4: "list_ex (\<lambda>e. isPatch e \<and> payloadOf e = Some ?s)
             (traceOf (joinPair env config dst dstKube src ?w1))"
    using second again by (simp add: traceOf_def)
  from 1 2 3 4 show ?thesis unfolding w1 by blast
qed

theorem C6_second_run_patches_witness:
  "fst (joinPair meshEnv meshConfig ''b'' 1 ''a'' meshWorld) = None
   \<and> list_all apiOk (traceOf (joinPair meshEnv meshConfig ''b'' 1 ''a'' meshWorld))
   \<and> fst (joinPair meshEnv meshConfig ''b'' 1 ''a''
            (worldOf (joinPair meshEnv meshConfig ''b'' 1 ''a'' meshWorld))) = None
   \<and> worldOf (joinPair meshEnv meshConfig ''b'' 1 ''a''
            (worldOf (joinPair meshEnv meshConfig ''b'' 1 ''a'' meshWorld))) =
       worldOf (joinPair meshEnv meshConfig ''b'' 1 ''a'' meshWorld)
   \<and> list_ex isConflict
       (traceOf (joinPair meshEnv meshConfig ''b'' 1 ''a''
            (worldOf (joinPair meshEnv meshConfig ''b'' 1 ''a'' meshWorld))))
   \<and> list_ex isPatch
       (traceOf (joinPair meshEnv meshConfig ''b'' 1 ''a''
            (worldOf (joinPair meshEnv meshConfig ''b'' 1 ''a'' meshWorld))))"
proof -
  have h1: "fst (joinPair meshEnv meshConfig ''b'' 1 ''a'' meshWorld) = None"
    by (simp add: mesh_defs run_defs)
  have h2: "list_all apiOk (traceOf (joinPair meshEnv meshConfig ''b'' 1 ''a'' meshWorld))"
    by (simp add: mesh_defs run_defs)
  from C6_second_run_patches [OF h1 h2] h1 h2 show ?thesis
    by (auto simp: list_ex_iff)
qed

end
